theory Spec2Isabelle
  imports Complex_Main "HOL-Library.AList"
begin

section \<open>Index artifact cache of load.py\<close>

text \<open>
  A shallow embedding of the indexing part of \<^verbatim>\<open>load.py\<close>: the class
  \<^verbatim>\<open>Index_managment_prep\<close>, the two orchestrators \<^verbatim>\<open>d2vwitch\<close> and
  \<^verbatim>\<open>ffmsindex\<close>, \<^verbatim>\<open>run_process\<close>, \<^verbatim>\<open>correct_byte_for_range\<close>,
  \<^verbatim>\<open>update_index_path_reference\<close> and the helpers \<^verbatim>\<open>json_load\<close>,
  \<^verbatim>\<open>json_dump\<close>, \<^verbatim>\<open>random_name\<close>.

  Every function takes the world (file system, log, spawned commands) and returns it
  updated, together with its result. A Python exception is the \<open>Inl\<close> of a sum; the world
  is returned in that case too, since what was written before a raise stays written.
\<close>

subsection \<open>Python values\<close>

text \<open>
  The values a caller can pass for \<^verbatim>\<open>re_use_indexing\<close>: a boolean, an integer, a float, a
  string, \<^verbatim>\<open>None\<close>, or any other object (a \<^verbatim>\<open>Decimal\<close>, a \<^verbatim>\<open>Fraction\<close>, a complex number,
  \<^verbatim>\<open>nan\<close>, an instance of a class of the caller's). Of such an object the program observes
  three things, which \<open>PyOther\<close> carries: its truth value, whether it compares equal to
  \<^verbatim>\<open>True\<close> and whether it compares equal to \<^verbatim>\<open>False\<close>.
\<close>

datatype pyval =
    PyBool bool
  | PyInt int
  | PyFloat real
  | PyStr string
  | PyNone
  | PyOther bool bool bool

text \<open>Truth value of \<^verbatim>\<open>if x:\<close>.\<close>

fun truthy :: "pyval \<Rightarrow> bool" where
  "truthy (PyBool b) = b"
| "truthy (PyInt i) = (i \<noteq> 0)"
| "truthy (PyFloat x) = (x \<noteq> 0)"
| "truthy (PyStr s) = (s \<noteq> [])"
| "truthy PyNone = False"
| "truthy (PyOther t eq_True eq_False) = t"

text \<open>
  \<^verbatim>\<open>x == True\<close> and \<^verbatim>\<open>x == False\<close>: Python's \<^verbatim>\<open>bool\<close> is a subclass of \<^verbatim>\<open>int\<close>,
  \<^verbatim>\<open>True == 1 == 1.0\<close> and \<^verbatim>\<open>False == 0 == 0.0\<close>; a string or \<^verbatim>\<open>None\<close> equals neither.
\<close>

fun py_eq_bool :: "pyval \<Rightarrow> bool \<Rightarrow> bool" where
  "py_eq_bool (PyBool b) c = (b = c)"
| "py_eq_bool (PyInt i) c = (i = (if c then 1 else 0))"
| "py_eq_bool (PyFloat x) c = (x = (if c then 1 else 0))"
| "py_eq_bool (PyStr s) c = False"
| "py_eq_bool PyNone c = False"
| "py_eq_bool (PyOther t eq_True eq_False) c = (if c then eq_True else eq_False)"

text \<open>\<^verbatim>\<open>x in [True, False]\<close>: membership in a list compares with \<^verbatim>\<open>==\<close>.\<close>

definition in_True_False :: "pyval \<Rightarrow> bool" where
  "in_True_False x = (py_eq_bool x True \<or> py_eq_bool x False)"

text \<open>
  What \<^verbatim>\<open>json.load\<close> returns: a dictionary (here of strings to strings, in insertion
  order) or some other JSON value, of which only the truth value matters to the program.
\<close>

datatype json = JDict "(string \<times> string) list" | JOther bool

fun json_truthy :: "json \<Rightarrow> bool" where
  "json_truthy (JDict m) = (m \<noteq> [])"
| "json_truthy (JOther b) = b"

subsection \<open>Errors and log lines\<close>

text \<open>The \<^verbatim>\<open>ValueError\<close>s the program raises, by their message.\<close>

datatype value_error =
    No_source_argument
  | Not_a_file
  | Re_use_indexing_must_be_True_or_False
  | Indexing_dir_is_not_a_directory
  | Exec_dir_is_not_a_directory
  | Executable_is_not_in_exec_dir

datatype error =
    ValueError value_error
  | ExecutableNotInPATHError string
  | FileExistsError
  | OSError
  | TypeError

datatype logline = Info string | Error string

subsection \<open>Paths (\<^verbatim>\<open>posixpath\<close>)\<close>

definition startswith :: "string \<Rightarrow> string \<Rightarrow> bool" where
  "startswith s pre = (take (length pre) s = pre)"

definition join :: "string \<Rightarrow> string \<Rightarrow> string" where
  "join a b =
     (if startswith b ''/'' then b
      else if a = [] \<or> last a = CHR ''/'' then a @ b
      else a @ ''/'' @ b)"

definition basename :: "string \<Rightarrow> string" where
  "basename p = rev (takeWhile (\<lambda>c. c \<noteq> CHR ''/'') (rev p))"

definition dirname :: "string \<Rightarrow> string" where
  "dirname p =
     (let head = rev (dropWhile (\<lambda>c. c \<noteq> CHR ''/'') (rev p))
      in if head \<noteq> [] \<and> (\<exists>c \<in> set head. c \<noteq> CHR ''/'')
         then rev (dropWhile (\<lambda>c. c = CHR ''/'') (rev head))
         else head)"

text \<open>
  \<^verbatim>\<open>os.path.splitext(name)[0]\<close> for a name without separator: the part before the last
  dot, unless only dots precede it.
\<close>

definition splitext_root :: "string \<Rightarrow> string" where
  "splitext_root p =
     (case dropWhile (\<lambda>c. c \<noteq> CHR ''.'') (rev p) of
        [] \<Rightarrow> p
      | dot # front \<Rightarrow> if \<exists>c \<in> set front. c \<noteq> CHR ''.'' then rev front else p)"

text \<open>\<^verbatim>\<open>str.split(sep)\<close> for a separator of one character.\<close>

fun split_on :: "char \<Rightarrow> string \<Rightarrow> string list" where
  "split_on c [] = [[]]"
| "split_on c (x # xs) =
     (if x = c then [] # split_on c xs
      else (case split_on c xs of [] \<Rightarrow> [[x]] | w # ws \<Rightarrow> (x # w) # ws))"

text \<open>
  \<^verbatim>\<open>Path(p).name\<close>: \<^verbatim>\<open>pathlib\<close> drops empty and \<^verbatim>\<open>.\<close> components; the name is the
  last component left, or the empty string.
\<close>

definition path_name :: "string \<Rightarrow> string" where
  "path_name p =
     (case filter (\<lambda>c. c \<noteq> [] \<and> c \<noteq> ''.'') (split_on (CHR ''/'') p) of
        [] \<Rightarrow> []
      | c # cs \<Rightarrow> last (c # cs))"

text \<open>\<^verbatim>\<open>Path(d).joinpath(n)\<close>, as a string: joining the empty name gives \<open>d\<close> itself.\<close>

definition joinpath :: "string \<Rightarrow> string \<Rightarrow> string" where
  "joinpath d n = (if n = [] then d else join d n)"

subsection \<open>The world\<close>

text \<open>
  \<open>files\<close> maps a path to the text of the regular file there, in directory listing order;
  \<open>dirs\<close> are the directories. Paths are compared as strings: the program reaches
  every file of a directory through \<^verbatim>\<open>os.path.join\<close> of one spelling of that directory.
  \<open>locked\<close> are the paths that cannot be opened for writing (permissions, a full disk).
  \<open>spawned\<close> are the command lines given to \<^verbatim>\<open>os.system\<close>, \<open>logs\<close> the lines of both
  loggers, \<open>tick\<close> counts the temporary names drawn so far.
\<close>

record world =
  files :: "(string \<times> string) list"
  dirs :: "string list"
  locked :: "string list"
  spawned :: "string list"
  logs :: "logline list"
  tick :: nat

text \<open>
  What the program takes from outside: \<^verbatim>\<open>shutil.which\<close>, \<^verbatim>\<open>os.access(p, os.X_OK)\<close>,
  the \<^verbatim>\<open>json\<close> codec, the external process behind \<^verbatim>\<open>os.system\<close> (its exit status and
  what it does to the file system) and the names \<^verbatim>\<open>tempfile.NamedTemporaryFile\<close> picks.
\<close>

record env =
  which :: "string \<Rightarrow> string option"
  access_x :: "string \<Rightarrow> bool"
  json_loads :: "string \<Rightarrow> json option"
  json_dumps :: "(string \<times> string) list \<Rightarrow> string"
  os_system :: "string \<Rightarrow> world \<Rightarrow> int \<times> world"
  tmpname :: "nat \<Rightarrow> string"

definition info :: "world \<Rightarrow> string \<Rightarrow> world" where
  "info w m = w\<lparr>logs := logs w @ [Info m]\<rparr>"

definition err :: "world \<Rightarrow> string \<Rightarrow> world" where
  "err w m = w\<lparr>logs := logs w @ [Error m]\<rparr>"

text \<open>\<^verbatim>\<open>os.path.isfile\<close>, \<^verbatim>\<open>os.path.isdir\<close>, \<^verbatim>\<open>os.path.exists\<close>: false on the empty path.\<close>

definition isfile :: "world \<Rightarrow> string \<Rightarrow> bool" where
  "isfile w p = (p \<noteq> [] \<and> map_of (files w) p \<noteq> None)"

definition isdir :: "world \<Rightarrow> string \<Rightarrow> bool" where
  "isdir w p = (p \<noteq> [] \<and> p \<in> set (dirs w))"

definition path_exists :: "world \<Rightarrow> string \<Rightarrow> bool" where
  "path_exists w p = (isfile w p \<or> isdir w p)"

text \<open>
  The entries of a directory: the paths that are \<^verbatim>\<open>os.path.join(d, n)\<close> for a name \<open>n\<close>
  that is not empty and has no separator.
\<close>

definition child_name :: "string \<Rightarrow> string \<Rightarrow> string list" where
  "child_name pre p =
     (let n = drop (length pre) p
      in if take (length pre) p = pre \<and> n \<noteq> [] \<and> CHR ''/'' \<notin> set n then [n] else [])"

definition entries :: "world \<Rightarrow> string \<Rightarrow> string list" where
  "entries w d = concat (map (child_name (join d [])) (dirs w @ map fst (files w)))"

definition listdir :: "world \<Rightarrow> string \<Rightarrow> error + string list" where
  "listdir w d = (if isdir w d then Inr (entries w d) else Inl OSError)"

text \<open>
  \<^verbatim>\<open>os.makedirs\<close>: \<^verbatim>\<open>FileExistsError\<close> when the path exists; otherwise the path and its
  missing ancestors are created, unless one of the ancestors is a regular file.
\<close>

definition ancestors :: "string \<Rightarrow> string list" where
  "ancestors p = map (\<lambda>i. take i p) (filter (\<lambda>i. p ! i = CHR ''/'') [1 ..< length p])"

definition makedirs :: "world \<Rightarrow> string \<Rightarrow> (error + unit) \<times> world" where
  "makedirs w p =
     (if p = [] then (Inl OSError, w)
      else if path_exists w p then (Inl FileExistsError, w)
      else if \<exists>a \<in> set (ancestors p). isfile w a then (Inl OSError, w)
      else (Inr (), w\<lparr>dirs := dirs w @ filter (\<lambda>a. \<not> isdir w a) (ancestors p) @ [p]\<rparr>))"

text \<open>
  \<^verbatim>\<open>open(p, 'r')\<close>, \<^verbatim>\<open>open(p, 'r+')\<close> and \<^verbatim>\<open>open(p, 'w')\<close>; \<open>None\<close> is the exception.
  Opening for writing creates the file, so the directory it is in must exist; a path
  without directory part is in the current directory.
\<close>

definition open_r :: "world \<Rightarrow> string \<Rightarrow> string option" where
  "open_r w p = (if isfile w p then map_of (files w) p else None)"

definition open_rw :: "world \<Rightarrow> string \<Rightarrow> string option" where
  "open_rw w p = (if isfile w p \<and> p \<notin> set (locked w) then map_of (files w) p else None)"

definition can_open_w :: "world \<Rightarrow> string \<Rightarrow> bool" where
  "can_open_w w p =
     (p \<noteq> [] \<and> \<not> isdir w p \<and> p \<notin> set (locked w)
      \<and> (dirname p = [] \<or> isdir w (dirname p)))"

definition write_file :: "world \<Rightarrow> string \<Rightarrow> string \<Rightarrow> world" where
  "write_file w p text = w\<lparr>files := AList.update p text (files w)\<rparr>"

definition remove :: "world \<Rightarrow> string \<Rightarrow> world" where
  "remove w p = w\<lparr>files := AList.delete p (files w)\<rparr>"

subsection \<open>Helpers of the module\<close>

text \<open>
  \<^verbatim>\<open>json_load\<close>: any failure to open or to parse is logged and gives the empty dictionary.
\<close>

definition json_load :: "env \<Rightarrow> world \<Rightarrow> string \<Rightarrow> string \<Rightarrow> json \<times> world" where
  "json_load e w storage filename =
     (let path = join storage filename
      in case open_r w path of
           None \<Rightarrow> (JDict [], err w ''str(e)'')
         | Some text \<Rightarrow>
             (case json_loads e text of
                None \<Rightarrow> (JDict [], err w ''str(e)'')
              | Some template \<Rightarrow> (template, w)))"

definition json_dump ::
  "env \<Rightarrow> world \<Rightarrow> string \<Rightarrow> string \<Rightarrow> (string \<times> string) list \<Rightarrow> bool \<times> world" where
  "json_dump e w storage filename template =
     (let path = join storage filename
      in if can_open_w w path then (True, write_file w path (json_dumps e template))
         else (False, err w ''str(e)''))"

text \<open>
  \<^verbatim>\<open>random_name\<close>: the base name of a fresh temporary file, which is closed (and so
  deleted) at once.
\<close>

definition random_name :: "env \<Rightarrow> world \<Rightarrow> string \<times> world" where
  "random_name e w = (basename (tmpname e (tick w)), w\<lparr>tick := Suc (tick w)\<rparr>)"

text \<open>
  \<^verbatim>\<open>run_process\<close>: the command runs to its end on a thread that is joined at once; the
  result is whether the exit status is zero. The process changes the file system only.
\<close>

definition run_process :: "env \<Rightarrow> world \<Rightarrow> string \<Rightarrow> bool \<times> world" where
  "run_process e w cmd =
     (let (return_code, wt) = os_system e cmd w
      in (return_code = 0,
          w\<lparr>files := files wt, dirs := dirs wt, locked := locked wt,
            spawned := spawned w @ [cmd]\<rparr>))"

subsection \<open>\<^verbatim>\<open>correct_byte_for_range\<close>\<close>

text \<open>
  Text mode reads with universal newlines: \<^verbatim>\<open>\r\n\<close> and a lone \<^verbatim>\<open>\r\<close> arrive as
  \<^verbatim>\<open>\n\<close>. The lines the loop sees keep their terminator.
\<close>

fun universal_newlines :: "string \<Rightarrow> string" where
  "universal_newlines [] = []"
| "universal_newlines [c] = [if c = CHR 0x0D then CHR 0x0A else c]"
| "universal_newlines (c # d # cs) =
     (if c = CHR 0x0D \<and> d = CHR 0x0A then CHR 0x0A # universal_newlines cs
      else if c = CHR 0x0D then CHR 0x0A # universal_newlines (d # cs)
      else c # universal_newlines (d # cs))"

fun readlines :: "string \<Rightarrow> string list" where
  "readlines [] = []"
| "readlines (c # cs) =
     (if c = CHR 0x0A then [c] # readlines cs
      else (case readlines cs of [] \<Rightarrow> [[c]] | l # ls \<Rightarrow> (c # l) # ls))"

text \<open>\<^verbatim>\<open>str.strip()\<close> on ASCII text: the characters for which \<^verbatim>\<open>isspace\<close> holds.\<close>

definition is_space :: "char \<Rightarrow> bool" where
  "is_space c = (let n = (of_char c :: nat) in (9 \<le> n \<and> n \<le> 13) \<or> (28 \<le> n \<and> n \<le> 32))"

definition strip :: "string \<Rightarrow> string" where
  "strip s = rev (dropWhile is_space (rev (dropWhile is_space s)))"

text \<open>
  The loop over the lines: the lengths of the lines before the first one that, stripped,
  starts with the marker (of all lines when there is none).
\<close>

fun scan_offset :: "string list \<Rightarrow> nat \<Rightarrow> nat" where
  "scan_offset [] offset = offset"
| "scan_offset (line # rest) offset =
     (if startswith (strip line) ''YUVRGB_Scale'' then offset
      else scan_offset rest (offset + length line))"

text \<open>
  The artifact is read as ASCII; any other byte stands for a decoding failure, which the
  bare \<^verbatim>\<open>except\<close> catches and logs.
\<close>

definition decodable :: "string \<Rightarrow> bool" where
  "decodable text = (\<forall>c \<in> set text. (of_char c :: nat) < 128)"

text \<open>\<^verbatim>\<open>f.seek(offset); f.write(s)\<close>: overwrite in place, extending the file at its end.\<close>

definition overwrite_at :: "string \<Rightarrow> nat \<Rightarrow> string \<Rightarrow> string" where
  "overwrite_at text offset s = take offset text @ s @ drop (offset + length s) text"

definition correct_byte_for_range :: "world \<Rightarrow> string \<Rightarrow> string \<Rightarrow> (error + unit) \<times> world" where
  "correct_byte_for_range w d2v_path input_range =
     (let input_range_number = (if input_range = ''full'' then CHR ''0'' else CHR ''1'')
      in case open_rw w d2v_path of
           None \<Rightarrow> (Inl OSError, w)
         | Some text \<Rightarrow>
             if \<not> decodable text
             then (Inr (), err w ''Not d2v index file or not compatible, input_range byte check failed'')
             else
               (let offset = scan_offset (readlines (universal_newlines text)) 0
                in if offset \<noteq> 0
                   then (let range = take 1 (drop (offset + 13) text)
                         in if range \<noteq> [input_range_number]
                            then (Inr (),
                                  info (write_file w d2v_path
                                          (overwrite_at text offset (''YUVRGB_Scale='' @ [input_range_number])))
                                       (''correcting input range byte in d2v file to '' @ [input_range_number]))
                            else (Inr (), w))
                   else (Inr (), w)))"

subsection \<open>\<^verbatim>\<open>update_index_path_reference\<close>\<close>

text \<open>
  The Python function returns nothing; the model returns its local \<^verbatim>\<open>isDumped\<close>, so
  that a successful update can be told from a failed one. Assigning into a value that is
  not a dictionary raises \<^verbatim>\<open>TypeError\<close>.
\<close>

definition update_index_path_reference ::
  "env \<Rightarrow> world \<Rightarrow> string \<Rightarrow> string \<Rightarrow> json \<Rightarrow> string \<Rightarrow> string \<Rightarrow> string
     \<Rightarrow> (error + bool) \<times> world" where
  "update_index_path_reference e w file index_path file_index_ref indexing_dir reflist_name index_ext =
     (let (file_index_ref, w1) =
            (if \<not> json_truthy file_index_ref then json_load e w indexing_dir reflist_name
             else (file_index_ref, w))
      in case file_index_ref of
           JOther b \<Rightarrow> (Inl TypeError, w1)
         | JDict m \<Rightarrow>
             (let m = AList.update (path_name file) index_path m;
                  old_name = reflist_name;
                  (r, w2) = random_name e w1;
                  reflist_name = index_ext @ ''list'' @ r;
                  (isDumped, w3) = json_dump e w2 indexing_dir reflist_name m
              in if isDumped
                 then (let w4 = info w3 ''reference for new indexed file updated'';
                           old_file = joinpath indexing_dir old_name
                       in (Inr True, if isfile w4 old_file then remove w4 old_file else w4))
                 else (Inr False, err w3 ''json failed to store updated reference'')))"

subsection \<open>The class \<^verbatim>\<open>Index_managment_prep\<close>\<close>

text \<open>
  \<^verbatim>\<open>shutil.which\<close> returns a path or \<^verbatim>\<open>None\<close>; the program only tests the result for
  truth before using it, so \<^verbatim>\<open>None\<close> is read as the empty string.
\<close>

definition get_exec_path ::
  "env \<Rightarrow> world \<Rightarrow> string \<Rightarrow> string \<Rightarrow> string \<Rightarrow> (error + string) \<times> world" where
  "get_exec_path e w exec_dir exec_name fallback_tool_dir =
     (let searched =
            (if exec_dir = []
             then (let exec_path = (case which e exec_name of None \<Rightarrow> [] | Some p \<Rightarrow> p)
                   in if exec_path \<noteq> [] \<and> isfile w exec_path
                      then (Inr (exec_dir, exec_path),
                            if \<not> access_x e exec_path
                            then info w (''executable '' @ exec_name @ '' might not have administrative rights to run'')
                            else w)
                      else if fallback_tool_dir \<noteq> [] \<and> isdir w fallback_tool_dir
                      then (Inr (fallback_tool_dir, exec_path),
                            info w (''No directory passed for '' @ exec_name
                                    @ '', executable not found in PATH, but fallback_tool_dir passed''))
                      else (Inl (ExecutableNotInPATHError exec_name), w))
             else (Inr (exec_dir, []), w))
      in case searched of
           (Inl x, w1) \<Rightarrow> (Inl x, w1)
         | (Inr (exec_dir, exec_path), w1) \<Rightarrow>
             if \<not> isdir w1 exec_dir then (Inl (ValueError Exec_dir_is_not_a_directory), w1)
             else
               (let exec_path = (if exec_path = [] then join exec_dir exec_name else exec_path)
                in if \<not> isfile w1 exec_path
                   then (let exec_path = exec_path @ ''.exe''
                         in if \<not> isfile w1 exec_path
                            then (Inl (ValueError Executable_is_not_in_exec_dir), w1)
                            else (Inr exec_path, w1))
                   else (Inr exec_path, w1)))"

definition get_reflist_name ::
  "env \<Rightarrow> world \<Rightarrow> string \<Rightarrow> string \<Rightarrow> (error + string) \<times> world" where
  "get_reflist_name e w indexing_dir index_ext =
     (case listdir w indexing_dir of
        Inl x \<Rightarrow> (Inl x, w)
      | Inr names \<Rightarrow>
          (case find (\<lambda>f. isfile w (join indexing_dir f) \<and> startswith f (index_ext @ ''list'')) names of
             Some f \<Rightarrow> (Inr f, w)
           | None \<Rightarrow>
               (let (r, w1) = random_name e w;
                    reflist_name = index_ext @ ''list'' @ r;
                    (isDumped, w2) = json_dump e w1 indexing_dir reflist_name [(''filebase'', ''index file'')]
                in if \<not> isDumped
                   then (Inr [],
                         err w2 (''json failed to create empty dictionary to store '' @ index_ext @ '' references''))
                   else (Inr reflist_name, w2))))"

definition get_index_path_using_reflist ::
  "env \<Rightarrow> world \<Rightarrow> string \<Rightarrow> string \<Rightarrow> string \<Rightarrow> pyval
     \<Rightarrow> (error + bool \<times> string \<times> string \<times> json) \<times> world" where
  "get_index_path_using_reflist e w source index_ext indexing_dir re_use_indexing =
     (case get_reflist_name e w indexing_dir index_ext of
        (Inl x, w1) \<Rightarrow> (Inl x, w1)
      | (Inr reflist_name, w1) \<Rightarrow>
          (let (index_path, file_index_ref, w2) =
                 (if truthy re_use_indexing
                  then (let (loaded, wl) =
                              json_load e
                                (info w1 (''re_use_indexing is enabled, looking for '' @ index_ext @ '' file in temp''))
                                indexing_dir reflist_name
                        in case loaded of
                             JDict m \<Rightarrow>
                               if m \<noteq> []
                               then (case map_of m (basename source) of
                                       None \<Rightarrow>
                                         ([], loaded,
                                          info wl (''key '' @ basename source @ '' index file not found in reference, new ''
                                                   @ index_ext @ '' file will be created''))
                                     | Some p \<Rightarrow>
                                         if path_exists wl p
                                         then (p, loaded, info wl (index_ext @ ''_file='' @ p))
                                         else ([], JDict (AList.delete (basename source) m),
                                               info wl (''index file found in reference, but actual '' @ index_ext
                                                        @ '' file does not exist, will be created'')))
                               else ([], loaded,
                                     info wl (''reference file is not available, new '' @ index_ext
                                              @ '' file will be created''))
                           | JOther b \<Rightarrow>
                               ([], loaded,
                                info wl (''reference file is not available, new '' @ index_ext
                                         @ '' file will be created'')))
                  else ([], JDict [],
                        info w1 (''re_use_indexing is disabled, new '' @ index_ext @ '' file will be created'')))
           in if index_path = []
              then (let (r, w3) = random_name e w2
                    in (Inr (True, join indexing_dir (r @ ''.'' @ index_ext), reflist_name, file_index_ref), w3))
              else (Inr (False, index_path, reflist_name, file_index_ref), w2)))"

definition get_index_path :: "world \<Rightarrow> string \<Rightarrow> string \<Rightarrow> string \<Rightarrow> pyval \<Rightarrow> (bool \<times> string) \<times> world" where
  "get_index_path w file index_ext indexing_dir re_use_indexing =
     (let name = splitext_root (basename file);
          index_path = join indexing_dir (name @ ''.'' @ index_ext)
      in if truthy re_use_indexing
         then (let w1 = info w (''re_use_indexing is enabled, looking for '' @ index_ext @ '' file in ''
                                @ dirname file @ '' directory'')
               in if isfile w1 index_path
                  then ((False, index_path), info w1 (index_ext @ ''_file='' @ basename file @ ''.'' @ index_ext))
                  else ((True, index_path),
                        info w1 (''index file not found, new '' @ index_ext @ '' file will be created'')))
         else ((True, index_path),
               info w (''re_use_indexing is disabled, new '' @ index_ext @ '' file will be created'')))"

text \<open>
  The object the constructor builds. In co-located mode the attributes \<^verbatim>\<open>reflist_name\<close> and
  \<^verbatim>\<open>file_index_ref\<close> are never set and never read; the model gives them the values of the
  constructor's locals.
\<close>

record prep =
  isIndexing :: bool
  index_path :: string
  reflist_name :: string
  file_index_ref :: json
  exec_path :: string
  using_reflist :: bool
  indexing_dir :: string

definition Index_managment_prep ::
  "env \<Rightarrow> world \<Rightarrow> string \<Rightarrow> string \<Rightarrow> string \<Rightarrow> pyval \<Rightarrow> string \<Rightarrow> string \<Rightarrow> string
     \<Rightarrow> (error + prep) \<times> world" where
  "Index_managment_prep e w index_ext exec_name source re_use_indexing exec_dir indexing_dir' fallback_tool_dir =
     (if source = [] then (Inl (ValueError No_source_argument), w)
      else if \<not> isfile w source then (Inl (ValueError Not_a_file), w)
      else if \<not> in_True_False re_use_indexing
      then (Inl (ValueError Re_use_indexing_must_be_True_or_False), w)
      else
        (case get_exec_path e w exec_dir exec_name fallback_tool_dir of
           (Inl x, w1) \<Rightarrow> (Inl x, w1)
         | (Inr exec_path', w1) \<Rightarrow>
             if indexing_dir' \<noteq> []
             then
               (if \<not> isdir w1 indexing_dir'
                then (Inl (ValueError Indexing_dir_is_not_a_directory), w1)
                else
                  (let base = basename (dirname source);
                       idir = join (join indexing_dir' ''indexing'') base;
                       (made, w2) = makedirs w1 idir;
                       w3 = (case made of Inl x \<Rightarrow> w2 | Inr u \<Rightarrow> info w2 (''creating directory: '' @ idir))
                   in case get_index_path_using_reflist e w3 source index_ext idir re_use_indexing of
                        (Inl x, w4) \<Rightarrow> (Inl x, w4)
                      | (Inr (isI, ipath, rname, fref), w4) \<Rightarrow>
                          (case made of
                             Inl x \<Rightarrow>
                               if x = FileExistsError
                               then (Inr \<lparr>isIndexing = isI, index_path = ipath, reflist_name = rname,
                                          file_index_ref = fref, exec_path = exec_path',
                                          using_reflist = True, indexing_dir = idir\<rparr>, w4)
                               else (Inl x, w4)
                           | Inr u \<Rightarrow>
                               (Inr \<lparr>isIndexing = isI, index_path = ipath, reflist_name = rname,
                                     file_index_ref = fref, exec_path = exec_path',
                                     using_reflist = True, indexing_dir = idir\<rparr>, w4))))
             else
               (let idir = dirname source;
                    ((isI, ipath), w2) = get_index_path w1 source index_ext idir re_use_indexing
                in (Inr \<lparr>isIndexing = isI, index_path = ipath, reflist_name = [],
                         file_index_ref = JDict [], exec_path = exec_path',
                         using_reflist = False, indexing_dir = idir\<rparr>, w2))))"

subsection \<open>The orchestrators\<close>

text \<open>The loop that reads \<^verbatim>\<open>--input-range\<close> from the option words.\<close>

fun parse_input_range :: "string list \<Rightarrow> string \<Rightarrow> string" where
  "parse_input_range [] input_range = input_range"
| "parse_input_range [arg] input_range = input_range"
| "parse_input_range (arg # val # args) input_range =
     (if arg = ''--input-range'' then parse_input_range args val
      else parse_input_range (val # args) input_range)"

text \<open>
  The tail both orchestrators share, from \<^verbatim>\<open>isSuccess = run_process(cmd)\<close> to the
  \<^verbatim>\<open>return\<close>. An exception of the manifest update is not caught.
\<close>

definition run_indexing ::
  "env \<Rightarrow> world \<Rightarrow> prep \<Rightarrow> string \<Rightarrow> string \<Rightarrow> string \<Rightarrow> string \<Rightarrow> (error + string) \<times> world" where
  "run_indexing e w p cmd source index_ext exec_name =
     (let (isSuccess, w1) = run_process e w cmd
      in if isSuccess \<and> isfile w1 (index_path p)
         then
           (let (updated, w2) =
                  (if using_reflist p
                   then update_index_path_reference e w1 source (index_path p) (file_index_ref p)
                          (indexing_dir p) (reflist_name p) index_ext
                   else (Inr True, w1))
            in case updated of
                 Inl x \<Rightarrow> (Inl x, w2)
               | Inr b \<Rightarrow>
                   (Inr (index_path p),
                    info w2 (''created '' @ index_ext @ '' file: '' @ index_ext @ ''_file='' @ index_path p)))
         else (Inr [], err w1 (''ERROR while indexing with '' @ exec_name)))"

definition quoted :: "string \<Rightarrow> string" where
  "quoted s = [CHR 0x22] @ s @ [CHR 0x22]"

text \<open>The command lines, as the f-strings build them.\<close>

definition d2vwitch_cmd :: "prep \<Rightarrow> string \<Rightarrow> string \<Rightarrow> string" where
  "d2vwitch_cmd p d2vwitch_options source =
     (let cmd_output = '' --output '' @ quoted (index_path p)
      in ''title d2vwitch creating:  '' @ index_path p @ '' | mode con: cols=80 lines=6 | ''
         @ quoted (exec_path p) @ '' '' @ d2vwitch_options @ '' '' @ cmd_output @ '' '' @ quoted source)"

definition ffmsindex_cmd :: "prep \<Rightarrow> string \<Rightarrow> string" where
  "ffmsindex_cmd p source =
     ''title ffmsindex creating:  '' @ index_path p @ '' | mode con: cols=80 lines=6 | ''
     @ quoted (exec_path p) @ '' -f '' @ quoted source @ '' '' @ quoted (index_path p)"

definition d2vwitch ::
  "env \<Rightarrow> world \<Rightarrow> string \<Rightarrow> string \<Rightarrow> string \<Rightarrow> pyval \<Rightarrow> string \<Rightarrow> string
     \<Rightarrow> (error + string) \<times> world" where
  "d2vwitch e w source indexing_dir' d2vwitch_dir re_use_indexing d2vwitch_options fallback_tool_dir =
     (let index_ext = ''d2v'';
          exec_name = ''d2vwitch'';
          w0 = info w (''indexing, using '' @ exec_name @ '' for: '' @ source)
      in case Index_managment_prep e w0 index_ext exec_name source re_use_indexing d2vwitch_dir
                indexing_dir' fallback_tool_dir of
           (Inl x, w1) \<Rightarrow> (Inl x, w1)
         | (Inr p, w1) \<Rightarrow>
             if \<not> isIndexing p
             then
               (let input_range = parse_input_range (split_on (CHR '' '') d2vwitch_options) ''limited''
                in case correct_byte_for_range w1 (index_path p) input_range of
                     (Inl x, w2) \<Rightarrow> (Inl x, w2)
                   | (Inr u, w2) \<Rightarrow> (Inr (index_path p), w2))
             else
               (let cmd = d2vwitch_cmd p d2vwitch_options source
                in run_indexing e (info w1 (''d2vwitch command line: '' @ cmd)) p cmd source index_ext exec_name))"

definition ffmsindex ::
  "env \<Rightarrow> world \<Rightarrow> string \<Rightarrow> string \<Rightarrow> string \<Rightarrow> pyval \<Rightarrow> string \<Rightarrow> (error + string) \<times> world" where
  "ffmsindex e w source indexing_dir' ffmsindex_dir re_use_indexing fallback_tool_dir =
     (let index_ext = ''ffindex'';
          exec_name = ''ffmsindex'';
          w0 = info w (''indexing, using '' @ exec_name @ '' for: '' @ source)
      in case Index_managment_prep e w0 index_ext exec_name source re_use_indexing ffmsindex_dir
                indexing_dir' fallback_tool_dir of
           (Inl x, w1) \<Rightarrow> (Inl x, w1)
         | (Inr p, w1) \<Rightarrow>
             if \<not> isIndexing p then (Inr (index_path p), w1)
             else
               (let cmd = ffmsindex_cmd p source
                in run_indexing e (info w1 (''ffmsindex command line: '' @ cmd)) p cmd source index_ext exec_name))"

section \<open>The cache subdirectory\<close>

text \<open>
  The directory the constructor works in when \<^verbatim>\<open>indexing_dir\<close> is given:
  \<^verbatim>\<open>os.path.join(indexing_dir, 'indexing', basename)\<close> with the base name of the source's
  directory.
\<close>

definition cache_subdir :: "string \<Rightarrow> string \<Rightarrow> string" where
  "cache_subdir indexing_dir' source = join (join indexing_dir' ''indexing'') (basename (dirname source))"

section \<open>Manifests of a directory\<close>

text \<open>
  The manifest files of a directory, in listing order: the entries that are regular files
  and whose name starts with \<^verbatim>\<open>index_ext + 'list'\<close>. \<^verbatim>\<open>get_reflist_name\<close> takes the
  first of them.
\<close>

definition manifests :: "world \<Rightarrow> string \<Rightarrow> string \<Rightarrow> string list" where
  "manifests w d index_ext =
     filter (\<lambda>f. isfile w (join d f) \<and> startswith f (index_ext @ ''list'')) (entries w d)"

text \<open>The manifest name built from the \<open>i\<close>-th temporary name.\<close>

definition reflist_name_at :: "env \<Rightarrow> string \<Rightarrow> nat \<Rightarrow> string" where
  "reflist_name_at e index_ext i = index_ext @ ''list'' @ basename (tmpname e i)"

text \<open>
  A run of updates in one directory, each the way an orchestrator call makes it: the
  constructor finds the manifest with \<^verbatim>\<open>get_reflist_name\<close>, and after indexing
  \<^verbatim>\<open>update_index_path_reference\<close> replaces it. A request is the source, the new artifact
  path and the mapping the constructor holds. The run is \<open>None\<close> as soon as one update is
  not successful.
\<close>

fun update_run ::
  "env \<Rightarrow> world \<Rightarrow> string \<Rightarrow> string \<Rightarrow> (string \<times> string \<times> json) list \<Rightarrow> world option" where
  "update_run e w d index_ext [] = Some w"
| "update_run e w d index_ext ((file, ipath, fref) # rest) =
     (case get_reflist_name e w d index_ext of
        (Inl x, w1) \<Rightarrow> None
      | (Inr name, w1) \<Rightarrow>
          (case update_index_path_reference e w1 file ipath fref d name index_ext of
             (Inl x, w2) \<Rightarrow> None
           | (Inr isDumped, w2) \<Rightarrow> if isDumped then update_run e w2 d index_ext rest else None))"

section \<open>A concrete environment\<close>

text \<open>
  The environment and the worlds the theorems below are run on. \<open>plain_dumps\<close> writes a
  dictionary the way \<^verbatim>\<open>json.dump\<close> does for keys and values without characters to
  escape; \<open>loads0\<close> parses the two manifests that occur.
\<close>

fun dump_items :: "(string \<times> string) list \<Rightarrow> string" where
  "dump_items [] = []"
| "dump_items [(k, v)] = quoted k @ '': '' @ quoted v"
| "dump_items ((k, v) # kv # rest) = quoted k @ '': '' @ quoted v @ '', '' @ dump_items (kv # rest)"

definition plain_dumps :: "(string \<times> string) list \<Rightarrow> string" where
  "plain_dumps m = ''{'' @ dump_items m @ ''}''"

definition manifest0 :: "(string \<times> string) list" where
  "manifest0 = [(''filebase'', ''index file'')]"

definition manifest1 :: "(string \<times> string) list" where
  "manifest1 = [(''filebase'', ''index file''), (''a.mpg'', ''/c/indexing/v/old.d2v'')]"

definition loads0 :: "string \<Rightarrow> json option" where
  "loads0 s =
     (if s = plain_dumps manifest0 then Some (JDict manifest0)
      else if s = plain_dumps manifest1 then Some (JDict manifest1)
      else None)"

definition tmpname0 :: "nat \<Rightarrow> string" where
  "tmpname0 n = ''/tmp/tmp'' @ replicate (Suc n) (CHR ''x'')"

text \<open>An indexer that fails, and one that writes a full-range artifact and succeeds.\<close>

definition tool_fails :: "string \<Rightarrow> world \<Rightarrow> int \<times> world" where
  "tool_fails cmd w = (1, w)"

definition d2v_text :: "char \<Rightarrow> string" where
  "d2v_text flag = ''DGIndexProjectFile16'' @ [CHR 0x0A] @ ''YUVRGB_Scale='' @ [flag] @ [CHR 0x0A]"

definition tool_writes :: "string \<Rightarrow> string \<Rightarrow> world \<Rightarrow> int \<times> world" where
  "tool_writes out cmd w = (0, write_file w out (d2v_text (CHR ''0'')))"

definition env0 :: env where
  "env0 = \<lparr>which = (\<lambda>n. if n = ''d2vwitch'' then Some ''/usr/bin/d2vwitch'' else None),
           access_x = (\<lambda>p. False),
           json_loads = loads0,
           json_dumps = plain_dumps,
           os_system = tool_fails,
           tmpname = tmpname0\<rparr>"

definition env1 :: env where
  "env1 = env0\<lparr>os_system := tool_writes ''/v/a.d2v''\<rparr>"

definition world0 :: world where
  "world0 = \<lparr>files = [(''/v/a.mpg'', ''video''), (''/usr/bin/d2vwitch'', ''binary''),
                      (''/tools/d2vwitch'', ''binary''), (''/tools/ffmsindex'', ''binary'')],
             dirs = [''/v'', ''/usr/bin'', ''/tools'', ''/c''],
             locked = [], spawned = [], logs = [], tick = 0\<rparr>"

text \<open>An artifact whose first line is the marker line.\<close>

definition world_marker_first :: world where
  "world_marker_first =
     \<lparr>files = [(''/v/a.d2v'', ''YUVRGB_Scale=0'' @ [CHR 0x0A] @ ''rest'')],
      dirs = [''/v''], locked = [], spawned = [], logs = [], tick = 0\<rparr>"

text \<open>Co-located mode: the object built for \<open>/v/a.mpg\<close>, and a world with its artifact.\<close>

definition prep0 :: prep where
  "prep0 = \<lparr>isIndexing = True, index_path = ''/v/a.d2v'', reflist_name = [],
            file_index_ref = JDict [], exec_path = ''/tools/d2vwitch'',
            using_reflist = False, indexing_dir = ''/v''\<rparr>"

definition world_reuse :: world where
  "world_reuse = world0\<lparr>files := files world0 @ [(''/v/a.d2v'', d2v_text (CHR ''0''))]\<rparr>"

text \<open>
  Namespaced mode: the cache subdirectory of \<open>/v/a.mpg\<close> under \<open>/c\<close>, empty; with a manifest
  and the artifact it names; with the manifest only.
\<close>

definition world_cache :: world where
  "world_cache = world0\<lparr>dirs := dirs world0 @ [''/c/indexing'', ''/c/indexing/v'']\<rparr>"

definition world_indexed :: world where
  "world_indexed =
     world_cache\<lparr>files := files world0 @ [(''/c/indexing/v/d2vlistold'', plain_dumps manifest1),
                                            (''/c/indexing/v/old.d2v'', d2v_text (CHR ''1''))]\<rparr>"

definition world_stale :: world where
  "world_stale =
     world_cache\<lparr>files := files world0 @ [(''/c/indexing/v/d2vlistold'', plain_dumps manifest1)]\<rparr>"

text \<open>The indexed cache with the next manifest name refused, and two update requests.\<close>

definition world_locked :: world where
  "world_locked = world_indexed\<lparr>locked := [''/c/indexing/v/d2vlisttmpx'']\<rparr>"

definition requests2 :: "(string \<times> string \<times> json) list" where
  "requests2 = [(''/v/a.mpg'', ''/c/indexing/v/new.d2v'', JDict manifest1),
                (''/v/b.mpg'', ''/c/indexing/v/b.d2v'', JDict manifest1)]"

text \<open>
  The indexed cache with a second manifest, as a crash between writing and deleting
  leaves it; and an environment whose temporary names all repeat the one the manifest
  \<open>d2vlistold\<close> was made from.
\<close>

definition world_two_manifests :: world where
  "world_two_manifests =
     world_indexed\<lparr>files := files world_indexed @ [(''/c/indexing/v/d2vlistcrash'', plain_dumps manifest0)]\<rparr>"

definition env_repeat :: env where
  "env_repeat = env0\<lparr>tmpname := (\<lambda>n. ''/tmp/old'')\<rparr>"

text \<open>The empty cache with the first manifest name refused.\<close>

definition world_cache_locked :: world where
  "world_cache_locked = world_cache\<lparr>locked := [''/c/indexing/v/d2vlisttmpx'']\<rparr>"

section \<open>Executable resolution\<close>

text \<open>
  C1. With an empty tool directory and the tool found on the search path as an existing
  file, resolution should return that path. It does not: \<^verbatim>\<open>exec_dir\<close> is still the empty
  string when \<^verbatim>\<open>os.path.isdir(exec_dir)\<close> is tested, so \<^verbatim>\<open>get_exec_path\<close> raises the
  \<^verbatim>\<open>ValueError\<close> "directory for ... is not a directory", whatever the fallback directory.
\<close>

theorem get_exec_path_found_on_PATH_raises:
  "which e exec_name = Some p \<Longrightarrow> p \<noteq> [] \<Longrightarrow> isfile w p \<Longrightarrow>
   fst (get_exec_path e w [] exec_name fallback_tool_dir)
     = Inl (ValueError Exec_dir_is_not_a_directory)"
  by (simp add: get_exec_path_def isdir_def info_def)

theorem get_exec_path_found_on_PATH_raises_witness:
  "which env0 ''d2vwitch'' = Some ''/usr/bin/d2vwitch'' \<and> isfile world0 ''/usr/bin/d2vwitch''
   \<and> fst (get_exec_path env0 world0 [] ''d2vwitch'' ''/tools'')
       = Inl (ValueError Exec_dir_is_not_a_directory)"
proof -
  have h1: "which env0 ''d2vwitch'' = Some ''/usr/bin/d2vwitch''"
    by (simp add: env0_def)
  have h2: "''/usr/bin/d2vwitch'' \<noteq> []"
    by simp
  have h3: "isfile world0 ''/usr/bin/d2vwitch''"
    by (simp add: isfile_def world0_def)
  show ?thesis
    using h1 h3 get_exec_path_found_on_PATH_raises [OF h1 h2 h3, of "''/tools''"] by simp
qed

section \<open>Validation of the reuse flag\<close>




section \<open>Range correction\<close>

text \<open>
  C10. When the first line of the artifact, stripped, starts with \<^verbatim>\<open>YUVRGB_Scale\<close>, the
  offset is zero and \<^verbatim>\<open>correct_byte_for_range\<close> writes nothing: every file is as it was,
  for every desired range; when the file can be opened and decoded the whole world is
  unchanged, so not even a log line is added.
\<close>

theorem marker_on_first_line_untouched:
  "map_of (files w) p = Some text \<Longrightarrow>
   readlines (universal_newlines text) = l # ls \<Longrightarrow>
   startswith (strip l) ''YUVRGB_Scale'' \<Longrightarrow>
   files (snd (correct_byte_for_range w p r)) = files w
   \<and> (open_rw w p \<noteq> None \<and> decodable text \<longrightarrow> correct_byte_for_range w p r = (Inr (), w))"
  by (auto simp: correct_byte_for_range_def open_rw_def err_def Let_def split: option.splits)

theorem marker_on_first_line_untouched_witness:
  "map_of (files world_marker_first) ''/v/a.d2v'' = Some (''YUVRGB_Scale=0'' @ [CHR 0x0A] @ ''rest'')
   \<and> readlines (universal_newlines (''YUVRGB_Scale=0'' @ [CHR 0x0A] @ ''rest''))
       = [''YUVRGB_Scale=0'' @ [CHR 0x0A], ''rest'']
   \<and> startswith (strip (''YUVRGB_Scale=0'' @ [CHR 0x0A])) ''YUVRGB_Scale''
   \<and> correct_byte_for_range world_marker_first ''/v/a.d2v'' ''limited'' = (Inr (), world_marker_first)"
proof -
  have h1: "map_of (files world_marker_first) ''/v/a.d2v''
              = Some (''YUVRGB_Scale=0'' @ [CHR 0x0A] @ ''rest'')"
    by (simp add: world_marker_first_def)
  have h2: "readlines (universal_newlines (''YUVRGB_Scale=0'' @ [CHR 0x0A] @ ''rest''))
              = (''YUVRGB_Scale=0'' @ [CHR 0x0A]) # [''rest'']"
    by simp
  have h3: "startswith (strip (''YUVRGB_Scale=0'' @ [CHR 0x0A])) ''YUVRGB_Scale''"
    by (simp add: startswith_def strip_def is_space_def)
  have h4: "open_rw world_marker_first ''/v/a.d2v'' \<noteq> None"
    by (simp add: open_rw_def isfile_def world_marker_first_def)
  have h5: "decodable (''YUVRGB_Scale=0'' @ [CHR 0x0A] @ ''rest'')"
    by (simp add: decodable_def)
  show ?thesis
    using h1 h2 h3 h4 h5 marker_on_first_line_untouched [OF h1 h2 h3, of "''limited''"]
    by simp
qed

section \<open>The orchestrators\<close>

text \<open>The constructor in co-located mode, on the concrete worlds.\<close>

lemma prep_colocated_indexing:
  "Index_managment_prep e (info world0 m) ''d2v'' ''d2vwitch'' ''/v/a.mpg'' (PyBool False) ''/tools'' [] []
     = (Inr prep0, info (info world0 m) ''re_use_indexing is disabled, new d2v file will be created'')"
  by (simp add: Index_managment_prep_def world0_def isfile_def isdir_def in_True_False_def
      get_exec_path_def join_def startswith_def get_index_path_def basename_def dirname_def
      splitext_root_def info_def Let_def prep0_def)

lemma prep_colocated_reuse:
  "Index_managment_prep e (info world_reuse m) ''d2v'' ''d2vwitch'' ''/v/a.mpg'' (PyBool True) ''/tools'' [] []
     = (Inr (prep0\<lparr>isIndexing := False\<rparr>),
        info (info (info world_reuse m) ''re_use_indexing is enabled, looking for d2v file in /v directory'')
          ''d2v_file=a.mpg.d2v'')"
  by (simp add: Index_managment_prep_def world_reuse_def world0_def isfile_def isdir_def in_True_False_def
      get_exec_path_def join_def startswith_def get_index_path_def basename_def dirname_def
      splitext_root_def info_def Let_def prep0_def)

lemma run_indexing_failure:
  "run_process e w cmd = (ok, w1) \<Longrightarrow> \<not> ok \<or> \<not> isfile w1 (index_path p) \<Longrightarrow>
   run_indexing e w p cmd source index_ext exec_name
     = (Inr [], err w1 (''ERROR while indexing with '' @ exec_name))"
  by (auto simp: run_indexing_def)

text \<open>
  C8. When indexing runs and the external process exits with a status other than zero, or
  the artifact file does not exist after it, \<^verbatim>\<open>d2vwitch\<close> and \<^verbatim>\<open>ffmsindex\<close> return the
  empty string, raise nothing, and the last thing they do is log the error
  "ERROR while indexing with ..."; \<^verbatim>\<open>run_process\<close> returns true exactly when the exit
  status is zero.
\<close>

theorem indexing_failure_returns_empty_string:
  "(Index_managment_prep e (info w (''indexing, using d2vwitch for: '' @ source)) ''d2v'' ''d2vwitch''
        source v d2vwitch_dir idir fb = (Inr p, w1)
      \<and> isIndexing p
      \<and> run_process e (info w1 (''d2vwitch command line: '' @ d2vwitch_cmd p opts source))
            (d2vwitch_cmd p opts source) = (ok, w2)
      \<and> (\<not> ok \<or> \<not> isfile w2 (index_path p))
    \<longrightarrow> d2vwitch e w source idir d2vwitch_dir v opts fb
          = (Inr [], err w2 ''ERROR while indexing with d2vwitch''))
   \<and> (Index_managment_prep e (info w (''indexing, using ffmsindex for: '' @ source)) ''ffindex'' ''ffmsindex''
        source v ffmsindex_dir idir fb = (Inr q, w3)
      \<and> isIndexing q
      \<and> run_process e (info w3 (''ffmsindex command line: '' @ ffmsindex_cmd q source))
            (ffmsindex_cmd q source) = (ok', w4)
      \<and> (\<not> ok' \<or> \<not> isfile w4 (index_path q))
    \<longrightarrow> ffmsindex e w source idir ffmsindex_dir v fb
          = (Inr [], err w4 ''ERROR while indexing with ffmsindex''))
   \<and> (fst (run_process e w cmd) \<longleftrightarrow> fst (os_system e cmd w) = 0)"
proof (intro conjI impI)
  assume a: "Index_managment_prep e (info w (''indexing, using d2vwitch for: '' @ source)) ''d2v'' ''d2vwitch''
        source v d2vwitch_dir idir fb = (Inr p, w1)
      \<and> isIndexing p
      \<and> run_process e (info w1 (''d2vwitch command line: '' @ d2vwitch_cmd p opts source))
            (d2vwitch_cmd p opts source) = (ok, w2)
      \<and> (\<not> ok \<or> \<not> isfile w2 (index_path p))"
  then show "d2vwitch e w source idir d2vwitch_dir v opts fb
          = (Inr [], err w2 ''ERROR while indexing with d2vwitch'')"
    using run_indexing_failure [of e _ "d2vwitch_cmd p opts source" ok w2 p source "''d2v''" "''d2vwitch''"]
    by (simp add: d2vwitch_def Let_def)
next
  assume a: "Index_managment_prep e (info w (''indexing, using ffmsindex for: '' @ source)) ''ffindex'' ''ffmsindex''
        source v ffmsindex_dir idir fb = (Inr q, w3)
      \<and> isIndexing q
      \<and> run_process e (info w3 (''ffmsindex command line: '' @ ffmsindex_cmd q source))
            (ffmsindex_cmd q source) = (ok', w4)
      \<and> (\<not> ok' \<or> \<not> isfile w4 (index_path q))"
  then show "ffmsindex e w source idir ffmsindex_dir v fb
          = (Inr [], err w4 ''ERROR while indexing with ffmsindex'')"
    using run_indexing_failure [of e _ "ffmsindex_cmd q source" ok' w4 q source "''ffindex''" "''ffmsindex''"]
    by (simp add: ffmsindex_def Let_def)
next
  show "fst (run_process e w cmd) \<longleftrightarrow> fst (os_system e cmd w) = 0"
    by (simp add: run_process_def split: prod.splits)
qed

theorem indexing_failure_returns_empty_string_witness:
  "isIndexing prep0
   \<and> fst (d2vwitch env0 world0 ''/v/a.mpg'' [] ''/tools'' (PyBool False) ''--input-range limited'' []) = Inr []
   \<and> last (logs (snd (d2vwitch env0 world0 ''/v/a.mpg'' [] ''/tools'' (PyBool False) ''--input-range limited'' [])))
       = Error ''ERROR while indexing with d2vwitch''"
proof -
  let ?cmd = "d2vwitch_cmd prep0 ''--input-range limited'' ''/v/a.mpg''"
  let ?w1 = "info (info world0 ''indexing, using d2vwitch for: /v/a.mpg'')
               ''re_use_indexing is disabled, new d2v file will be created''"
  let ?wc = "info ?w1 (''d2vwitch command line: '' @ ?cmd)"
  have h1: "Index_managment_prep env0 (info world0 (''indexing, using d2vwitch for: '' @ ''/v/a.mpg''))
              ''d2v'' ''d2vwitch'' ''/v/a.mpg'' (PyBool False) ''/tools'' [] [] = (Inr prep0, ?w1)"
    using prep_colocated_indexing [of env0 "''indexing, using d2vwitch for: /v/a.mpg''"] by simp
  have h2: "isIndexing prep0"
    by (simp add: prep0_def)
  have "fst (run_process env0 ?wc ?cmd) = False"
    by (simp add: run_process_def env0_def tool_fails_def)
  then have h3: "run_process env0 ?wc ?cmd = (False, snd (run_process env0 ?wc ?cmd))"
    by (simp add: prod_eq_iff)
  have "d2vwitch env0 world0 ''/v/a.mpg'' [] ''/tools'' (PyBool False) ''--input-range limited'' []
          = (Inr [], err (snd (run_process env0 ?wc ?cmd)) ''ERROR while indexing with d2vwitch'')"
    using indexing_failure_returns_empty_string
      [of env0 world0 "''/v/a.mpg''" "PyBool False" "''/tools''" "[]" "[]" prep0 ?w1
          "''--input-range limited''" False "snd (run_process env0 ?wc ?cmd)"]
      h1 h2 h3
    by blast
  then show ?thesis
    using h2 by (simp add: err_def)
qed

text \<open>
  C2, as stated: the range correction is applied to every artifact \<^verbatim>\<open>d2vwitch\<close> returns,
  also to one just generated. It is not: here the indexer writes an artifact flagged full
  range (\<open>0\<close>) while the call asks for limited range; the artifact is returned with the
  flag \<open>0\<close>, and applying \<^verbatim>\<open>correct_byte_for_range\<close> afterwards would still change it.
\<close>

theorem new_artifact_not_range_corrected:
  "fst (d2vwitch env1 world0 ''/v/a.mpg'' [] ''/tools'' (PyBool False) ''--input-range limited'' [])
     = Inr ''/v/a.d2v''
   \<and> map_of (files (snd (d2vwitch env1 world0 ''/v/a.mpg'' [] ''/tools'' (PyBool False)
                             ''--input-range limited'' []))) ''/v/a.d2v''
       = Some (d2v_text (CHR ''0''))
   \<and> map_of (files (snd (correct_byte_for_range
                           (snd (d2vwitch env1 world0 ''/v/a.mpg'' [] ''/tools'' (PyBool False)
                                   ''--input-range limited'' []))
                           ''/v/a.d2v'' ''limited''))) ''/v/a.d2v''
       = Some (d2v_text (CHR ''1''))"
proof -
  let ?cmd = "d2vwitch_cmd prep0 ''--input-range limited'' ''/v/a.mpg''"
  let ?w1 = "info (info world0 ''indexing, using d2vwitch for: /v/a.mpg'')
               ''re_use_indexing is disabled, new d2v file will be created''"
  let ?wc = "info ?w1 (''d2vwitch command line: '' @ ?cmd)"
  let ?w2 = "?wc\<lparr>files := files world0 @ [(''/v/a.d2v'', d2v_text (CHR ''0''))],
                 spawned := [?cmd]\<rparr>"
  have h1: "Index_managment_prep env1 (info world0 ''indexing, using d2vwitch for: /v/a.mpg'')
              ''d2v'' ''d2vwitch'' ''/v/a.mpg'' (PyBool False) ''/tools'' [] [] = (Inr prep0, ?w1)"
    by (rule prep_colocated_indexing)
  have h3: "run_process env1 ?wc ?cmd = (True, ?w2)"
    by (simp add: run_process_def env1_def tool_writes_def write_file_def info_def world0_def)
  have h4: "isfile ?w2 ''/v/a.d2v''"
    by (simp add: isfile_def world0_def)
  have d: "d2vwitch env1 world0 ''/v/a.mpg'' [] ''/tools'' (PyBool False) ''--input-range limited'' []
          = (Inr ''/v/a.d2v'', info ?w2 ''created d2v file: d2v_file=/v/a.d2v'')"
    using h1 h3 h4 by (simp add: d2vwitch_def Let_def run_indexing_def prep0_def)
  have s: "scan_offset (readlines (universal_newlines (d2v_text (CHR ''0'')))) 0 = 21"
    by (simp add: d2v_text_def startswith_def strip_def is_space_def)
  have c: "map_of (files (snd (correct_byte_for_range (info ?w2 ''created d2v file: d2v_file=/v/a.d2v'')
                           ''/v/a.d2v'' ''limited''))) ''/v/a.d2v'' = Some (d2v_text (CHR ''1''))"
    using s
    by (simp add: correct_byte_for_range_def open_rw_def isfile_def info_def world0_def Let_def
        decodable_def write_file_def overwrite_at_def)
       (simp add: d2v_text_def)
  have f: "map_of (files (info ?w2 ''created d2v file: d2v_file=/v/a.d2v'')) ''/v/a.d2v''
             = Some (d2v_text (CHR ''0''))"
    by (simp add: info_def world0_def)
  show ?thesis
    unfolding d using c f by simp
qed

text \<open>
  C2, amended: \<^verbatim>\<open>d2vwitch\<close> applies \<^verbatim>\<open>correct_byte_for_range\<close>, with the range read from
  the options, exactly when an existing artifact is reused (\<^verbatim>\<open>isIndexing\<close> false). When a
  new artifact has been generated successfully, the world returned is the one the indexer
  left (after the manifest update in namespaced mode) plus one log line: the artifact is
  returned as the indexer wrote it.
\<close>

theorem range_correction_only_on_reuse:
  "Index_managment_prep e (info w (''indexing, using d2vwitch for: '' @ source)) ''d2v'' ''d2vwitch''
        source v d2vwitch_dir idir fb = (Inr p, w1) \<Longrightarrow>
   (\<not> isIndexing p \<longrightarrow>
      d2vwitch e w source idir d2vwitch_dir v opts fb
        = (case correct_byte_for_range w1 (index_path p)
                  (parse_input_range (split_on (CHR '' '') opts) ''limited'') of
             (Inl x, w2) \<Rightarrow> (Inl x, w2)
           | (Inr u, w2) \<Rightarrow> (Inr (index_path p), w2)))
   \<and> (isIndexing p
        \<and> run_process e (info w1 (''d2vwitch command line: '' @ d2vwitch_cmd p opts source))
              (d2vwitch_cmd p opts source) = (True, w2)
        \<and> isfile w2 (index_path p) \<longrightarrow>
        (\<not> using_reflist p \<longrightarrow>
           d2vwitch e w source idir d2vwitch_dir v opts fb
             = (Inr (index_path p), info w2 (''created d2v file: d2v_file='' @ index_path p)))
        \<and> (using_reflist p
             \<and> update_index_path_reference e w2 source (index_path p) (file_index_ref p)
                   (indexing_dir p) (reflist_name p) ''d2v'' = (Inr b, w3) \<longrightarrow>
             d2vwitch e w source idir d2vwitch_dir v opts fb
               = (Inr (index_path p), info w3 (''created d2v file: d2v_file='' @ index_path p))))"
  by (simp add: d2vwitch_def Let_def run_indexing_def)

theorem range_correction_only_on_reuse_witness:
  "\<not> isIndexing (prep0\<lparr>isIndexing := False\<rparr>)
   \<and> fst (d2vwitch env0 world_reuse ''/v/a.mpg'' [] ''/tools'' (PyBool True) ''--input-range limited'' [])
       = Inr ''/v/a.d2v''
   \<and> map_of (files (snd (d2vwitch env0 world_reuse ''/v/a.mpg'' [] ''/tools'' (PyBool True)
                             ''--input-range limited'' []))) ''/v/a.d2v''
       = Some (d2v_text (CHR ''1''))
   \<and> isIndexing prep0 \<and> \<not> using_reflist prep0
   \<and> fst (d2vwitch env1 world0 ''/v/a.mpg'' [] ''/tools'' (PyBool False) ''--input-range limited'' [])
       = Inr ''/v/a.d2v''
   \<and> files (snd (d2vwitch env1 world0 ''/v/a.mpg'' [] ''/tools'' (PyBool False) ''--input-range limited'' []))
       = files world0 @ [(''/v/a.d2v'', d2v_text (CHR ''0''))]"
proof -
  let ?m = "''indexing, using d2vwitch for: /v/a.mpg''"
  let ?opts = "''--input-range limited''"
  let ?r1 = "info (info (info world_reuse ?m)
                ''re_use_indexing is enabled, looking for d2v file in /v directory'')
                ''d2v_file=a.mpg.d2v''"
  have r1: "Index_managment_prep env0 (info world_reuse (''indexing, using d2vwitch for: '' @ ''/v/a.mpg''))
              ''d2v'' ''d2vwitch'' ''/v/a.mpg'' (PyBool True) ''/tools'' [] []
              = (Inr (prep0\<lparr>isIndexing := False\<rparr>), ?r1)"
    using prep_colocated_reuse [of env0 ?m] by simp
  have r2: "\<not> isIndexing (prep0\<lparr>isIndexing := False\<rparr>)"
    by simp
  have r3: "index_path (prep0\<lparr>isIndexing := False\<rparr>) = ''/v/a.d2v''"
    by (simp add: prep0_def)
  have r4: "parse_input_range (split_on (CHR '' '') ?opts) ''limited'' = ''limited''"
    by simp
  have s: "scan_offset (readlines (universal_newlines (d2v_text (CHR ''0'')))) 0 = 21"
    by (simp add: d2v_text_def startswith_def strip_def is_space_def)
  have r5: "correct_byte_for_range ?r1 ''/v/a.d2v'' ''limited''
              = (Inr (), info (write_file ?r1 ''/v/a.d2v'' (d2v_text (CHR ''1'')))
                           ''correcting input range byte in d2v file to 1'')"
    using s
    by (simp add: correct_byte_for_range_def open_rw_def isfile_def info_def world_reuse_def world0_def
        Let_def decodable_def overwrite_at_def)
       (simp add: d2v_text_def)
  have reuse: "d2vwitch env0 world_reuse ''/v/a.mpg'' [] ''/tools'' (PyBool True) ?opts []
                 = (Inr ''/v/a.d2v'', info (write_file ?r1 ''/v/a.d2v'' (d2v_text (CHR ''1'')))
                           ''correcting input range byte in d2v file to 1'')"
    using range_correction_only_on_reuse [OF r1, of ?opts] r2 r3 r4 r5 by simp
  let ?cmd = "d2vwitch_cmd prep0 ?opts ''/v/a.mpg''"
  let ?w1 = "info (info world0 ?m) ''re_use_indexing is disabled, new d2v file will be created''"
  let ?wc = "info ?w1 (''d2vwitch command line: '' @ ?cmd)"
  let ?w2 = "?wc\<lparr>files := files world0 @ [(''/v/a.d2v'', d2v_text (CHR ''0''))], spawned := [?cmd]\<rparr>"
  have h1: "Index_managment_prep env1 (info world0 (''indexing, using d2vwitch for: '' @ ''/v/a.mpg''))
              ''d2v'' ''d2vwitch'' ''/v/a.mpg'' (PyBool False) ''/tools'' [] [] = (Inr prep0, ?w1)"
    using prep_colocated_indexing [of env1 ?m] by simp
  have h2: "isIndexing prep0 \<and> \<not> using_reflist prep0 \<and> index_path prep0 = ''/v/a.d2v''"
    by (simp add: prep0_def)
  have h3: "run_process env1 ?wc ?cmd = (True, ?w2)"
    by (simp add: run_process_def env1_def tool_writes_def write_file_def info_def world0_def)
  have h4: "isfile ?w2 ''/v/a.d2v''"
    by (simp add: isfile_def world0_def)
  have fresh: "d2vwitch env1 world0 ''/v/a.mpg'' [] ''/tools'' (PyBool False) ?opts []
                 = (Inr ''/v/a.d2v'', info ?w2 ''created d2v file: d2v_file=/v/a.d2v'')"
    using range_correction_only_on_reuse [OF h1, of ?opts ?w2] h2 h3 h4 by simp
  have f1: "map_of (files (info (write_file ?r1 ''/v/a.d2v'' (d2v_text (CHR ''1'')))
                           ''correcting input range byte in d2v file to 1'')) ''/v/a.d2v''
              = Some (d2v_text (CHR ''1''))"
    by (simp add: info_def write_file_def update_conv')
  have f2: "files (info ?w2 ''created d2v file: d2v_file=/v/a.d2v'')
              = files world0 @ [(''/v/a.d2v'', d2v_text (CHR ''0''))]"
    by (simp add: info_def)
  show ?thesis
    unfolding reuse fresh using f1 f2 h2 by simp
qed

section \<open>The manifest store\<close>

subsection \<open>Paths and directory listings\<close>

lemma join_nil: "join d [] = (if d = [] \<or> last d = CHR ''/'' then d else d @ ''/'')"
  by (simp add: join_def startswith_def)

lemma join_plain: "CHR ''/'' \<notin> set n \<Longrightarrow> join d n = join d [] @ n"
  by (cases n) (auto simp: join_def startswith_def)

lemma join_nonempty: "n \<noteq> [] \<Longrightarrow> join d n \<noteq> []"
  by (auto simp: join_def startswith_def)

lemma child_name_elem:
  "n \<in> set (child_name pre p) \<Longrightarrow> p = pre @ n \<and> n \<noteq> [] \<and> CHR ''/'' \<notin> set n"
  by (auto simp: child_name_def Let_def split: if_splits) (metis append_take_drop_id)

lemma child_name_app:
  "child_name pre (pre @ n) = (if n \<noteq> [] \<and> CHR ''/'' \<notin> set n then [n] else [])"
  by (simp add: child_name_def)

lemma child_name_short: "length p \<le> length pre \<Longrightarrow> child_name pre p = []"
  by (simp add: child_name_def)

lemma entries_elem:
  "n \<in> set (entries w d) \<Longrightarrow> n \<noteq> [] \<and> CHR ''/'' \<notin> set n \<and> join d n = join d [] @ n"
  by (auto simp: entries_def dest: child_name_elem join_plain)

lemma manifests_cong:
  "files w' = files w \<Longrightarrow> dirs w' = dirs w \<Longrightarrow> manifests w' d ext = manifests w d ext"
  by (simp add: manifests_def entries_def isfile_def)

lemma isfile_cong: "files w' = files w \<Longrightarrow> isfile w' p = isfile w p"
  by (simp add: isfile_def)

lemma isdir_cong: "dirs w' = dirs w \<Longrightarrow> isdir w' p = isdir w p"
  by (simp add: isdir_def)

lemma update_absent: "k \<notin> fst ` set al \<Longrightarrow> AList.update k v al = al @ [(k, v)]"
  by (induction al) auto

lemma keys_delete: "map fst (AList.delete k al) = filter (\<lambda>x. x \<noteq> k) (map fst al)"
  by (induction al) auto

lemma names_filter:
  "concat (map (child_name pre) (filter (\<lambda>k. k \<noteq> pre @ old) ks))
     = filter (\<lambda>n. n \<noteq> old) (concat (map (child_name pre) ks))"
proof (induction ks)
  case Nil
  then show ?case by simp
next
  case (Cons k ks)
  show ?case
  proof (cases "child_name pre k")
    case Nil
    then have "k \<noteq> pre @ old \<or> child_name pre (pre @ old) = []" by auto
    with Nil Cons show ?thesis by auto
  next
    case (Cons n ns)
    then have "n \<in> set (child_name pre k)" by simp
    then have k: "k = pre @ n" by (auto dest: child_name_elem)
    from Cons have ns: "ns = []" by (auto simp: child_name_def Let_def split: if_splits)
    show ?thesis using Cons.IH Cons k ns by auto
  qed
qed

lemma manifests_remove:
  assumes "CHR ''/'' \<notin> set old"
  shows "manifests (w\<lparr>files := AList.delete (join d old) (files w)\<rparr>) d ext
           = filter (\<lambda>f. f \<noteq> old) (manifests w d ext)"
proof -
  let ?pre = "join d []"
  let ?w' = "w\<lparr>files := AList.delete (join d old) (files w)\<rparr>"
  have jo: "join d old = ?pre @ old" using assms by (rule join_plain)
  have keys: "map fst (AList.delete (join d old) (files w))
                = filter (\<lambda>k. k \<noteq> ?pre @ old) (map fst (files w))"
    by (simp add: jo keys_delete)
  have ent: "entries ?w' d
               = concat (map (child_name ?pre) (dirs w))
                 @ filter (\<lambda>n. n \<noteq> old) (concat (map (child_name ?pre) (map fst (files w))))"
    by (simp add: entries_def keys names_filter)
  have P: "\<And>f. f \<in> set (entries w d) \<Longrightarrow>
             (isfile ?w' (join d f) \<and> startswith f (ext @ ''list''))
               = ((isfile w (join d f) \<and> startswith f (ext @ ''list'')) \<and> f \<noteq> old)"
  proof -
    fix f assume "f \<in> set (entries w d)"
    then have jf: "join d f = ?pre @ f" by (auto dest: entries_elem)
    show "(isfile ?w' (join d f) \<and> startswith f (ext @ ''list''))
               = ((isfile w (join d f) \<and> startswith f (ext @ ''list'')) \<and> f \<noteq> old)"
      by (auto simp: isfile_def jf jo delete_conv')
  qed
  have sub: "set (entries ?w' d) \<subseteq> set (entries w d)"
    unfolding ent by (auto simp: entries_def)
  have "manifests ?w' d ext
          = filter (\<lambda>f. (isfile w (join d f) \<and> startswith f (ext @ ''list'')) \<and> f \<noteq> old) (entries ?w' d)"
    unfolding manifests_def using P sub by (intro filter_cong) auto
  also have "\<dots> = filter (\<lambda>f. (isfile w (join d f) \<and> startswith f (ext @ ''list'')) \<and> f \<noteq> old) (entries w d)"
    unfolding ent by (auto simp: entries_def conj_commute)
  also have "\<dots> = filter (\<lambda>f. f \<noteq> old) (manifests w d ext)"
    by (simp add: manifests_def conj_commute)
  finally show ?thesis .
qed

lemma manifests_write:
  assumes "CHR ''/'' \<notin> set new" "new \<noteq> []" "\<not> path_exists w (join d new)"
  shows "manifests (w\<lparr>files := AList.update (join d new) text (files w)\<rparr>) d ext
           = manifests w d ext @ (if startswith new (ext @ ''list'') then [new] else [])"
proof -
  let ?pre = "join d []"
  let ?w' = "w\<lparr>files := AList.update (join d new) text (files w)\<rparr>"
  have jn: "join d new = ?pre @ new" using assms(1) by (rule join_plain)
  have ne: "join d new \<noteq> []" using assms(2) by (rule join_nonempty)
  have absent: "join d new \<notin> fst ` set (files w)" and nodir: "join d new \<notin> set (dirs w)"
    using assms(3) ne by (auto simp: path_exists_def isfile_def isdir_def map_of_eq_None_iff)
  have fs: "AList.update (join d new) text (files w) = files w @ [(join d new, text)]"
    using absent by (rule update_absent)
  have keys: "map fst (AList.update (?pre @ new) text (files w)) = map fst (files w) @ [?pre @ new]"
    using fs unfolding jn by simp
  have ent: "entries ?w' d = entries w d @ [new]"
    using assms(1,2) by (simp add: entries_def jn keys child_name_app)
  have notin: "new \<notin> set (entries w d)"
  proof
    assume "new \<in> set (entries w d)"
    then obtain k where "k \<in> set (dirs w) \<union> fst ` set (files w)" "new \<in> set (child_name ?pre k)"
      by (auto simp: entries_def)
    then have "?pre @ new \<in> set (dirs w) \<union> fst ` set (files w)"
      by (auto dest!: child_name_elem)
    then show False using absent nodir jn by auto
  qed
  have P: "\<And>f. f \<in> set (entries w d) \<Longrightarrow>
             (isfile ?w' (join d f) \<and> startswith f (ext @ ''list''))
               = (isfile w (join d f) \<and> startswith f (ext @ ''list''))"
  proof -
    fix f assume f: "f \<in> set (entries w d)"
    then have jf: "join d f = ?pre @ f" by (auto dest: entries_elem)
    have "f \<noteq> new" using f notin by auto
    then show "(isfile ?w' (join d f) \<and> startswith f (ext @ ''list''))
               = (isfile w (join d f) \<and> startswith f (ext @ ''list''))"
      by (auto simp: isfile_def jf jn update_conv')
  qed
  have new: "isfile ?w' (join d new)"
    using ne by (simp add: isfile_def update_conv')
  show ?thesis
    unfolding manifests_def ent using P new by (auto intro: filter_cong)
qed

lemma basename_no_sep: "CHR ''/'' \<notin> set (basename p)"
  by (auto simp: basename_def dest: set_takeWhileD)

lemma reflist_name_at_plain:
  "CHR ''/'' \<notin> set ext \<Longrightarrow> CHR ''/'' \<notin> set (reflist_name_at e ext i)"
  using basename_no_sep by (auto simp: reflist_name_at_def)

lemma reflist_name_at_nonempty: "reflist_name_at e ext i \<noteq> []"
  by (simp add: reflist_name_at_def)

lemma reflist_name_at_prefix: "startswith (reflist_name_at e ext i) (ext @ ''list'')"
  by (simp add: reflist_name_at_def startswith_def)

lemma find_first: "filter P xs = y # ys \<Longrightarrow> find P xs = Some y"
  by (induction xs) (auto split: if_splits)

lemma find_none: "filter P xs = [] \<Longrightarrow> find P xs = None"
  by (induction xs) (auto split: if_splits)

lemma get_reflist_name_found:
  "isdir w d \<Longrightarrow> manifests w d ext = m0 # rest \<Longrightarrow> get_reflist_name e w d ext = (Inr m0, w)"
  by (simp add: get_reflist_name_def listdir_def manifests_def find_first)

lemma can_open_w_cong:
  "dirs w' = dirs w \<Longrightarrow> locked w' = locked w \<Longrightarrow> can_open_w w' p = can_open_w w p"
  by (simp add: can_open_w_def isdir_def)

lemma get_reflist_name_created:
  assumes "isdir w d" "manifests w d ext = []"
  shows "get_reflist_name e w d ext
           = (if can_open_w w (join d (reflist_name_at e ext (tick w)))
              then (Inr (reflist_name_at e ext (tick w)),
                    write_file (w\<lparr>tick := Suc (tick w)\<rparr>) (join d (reflist_name_at e ext (tick w)))
                      (json_dumps e [(''filebase'', ''index file'')]))
              else (Inr [],
                    err (err (w\<lparr>tick := Suc (tick w)\<rparr>) ''str(e)'')
                      (''json failed to create empty dictionary to store '' @ ext @ '' references'')))"
proof -
  have f: "find (\<lambda>f. isfile w (join d f) \<and> startswith f (ext @ ''list'')) (entries w d) = None"
    using assms(2) unfolding manifests_def by (rule find_none)
  have c: "can_open_w (w\<lparr>tick := Suc (tick w)\<rparr>) (join d (reflist_name_at e ext (tick w)))
             = can_open_w w (join d (reflist_name_at e ext (tick w)))"
    by (simp add: can_open_w_def isdir_def)
  show ?thesis
    using assms(1) f c
    by (simp add: get_reflist_name_def listdir_def random_name_def json_dump_def reflist_name_at_def Let_def)
qed

lemma json_load_frame:
  "json_load e w d n = (j, w1) \<Longrightarrow>
     files w1 = files w \<and> dirs w1 = dirs w \<and> locked w1 = locked w \<and> spawned w1 = spawned w
     \<and> tick w1 = tick w"
  by (auto simp: json_load_def err_def Let_def split: option.splits)

lemma can_open_w_tick: "can_open_w (w\<lparr>tick := t\<rparr>) p = can_open_w w p"
  by (simp add: can_open_w_def isdir_def)

lemma update_unfold:
  "update_index_path_reference e w file ip fref d old ext
     = (let (j, w1) = (if \<not> json_truthy fref then json_load e w d old else (fref, w))
        in case j of
             JOther b \<Rightarrow> (Inl TypeError, w1)
           | JDict m0 \<Rightarrow>
               (if can_open_w w1 (join d (reflist_name_at e ext (tick w1)))
                then (Inr True,
                      let w4 = info (write_file (w1\<lparr>tick := Suc (tick w1)\<rparr>)
                                       (join d (reflist_name_at e ext (tick w1)))
                                       (json_dumps e (AList.update (path_name file) ip m0)))
                                 ''reference for new indexed file updated''
                      in if isfile w4 (joinpath d old) then remove w4 (joinpath d old) else w4)
                else (Inr False,
                      err (err (w1\<lparr>tick := Suc (tick w1)\<rparr>) ''str(e)'')
                        ''json failed to store updated reference'')))"
  by (simp add: update_index_path_reference_def random_name_def json_dump_def reflist_name_at_def
      Let_def can_open_w_tick split: prod.splits json.splits)


lemma update_success:
  assumes "update_index_path_reference e w file ip fref d old ext = (Inr True, w')"
  shows "\<exists>m. dirs w' = dirs w \<and> tick w' = Suc (tick w) \<and> spawned w' = spawned w
             \<and> locked w' = locked w
             \<and> can_open_w w (join d (reflist_name_at e ext (tick w)))
             \<and> map_of m (path_name file) = Some ip
             \<and> files w' =
                 (let fs = AList.update (join d (reflist_name_at e ext (tick w))) (json_dumps e m) (files w)
                  in if isfile (w\<lparr>files := fs\<rparr>) (joinpath d old)
                     then AList.delete (joinpath d old) fs else fs)"
proof -
  obtain j w1 where l: "(if \<not> json_truthy fref then json_load e w d old else (fref, w)) = (j, w1)"
    by (cases "(if \<not> json_truthy fref then json_load e w d old else (fref, w))") auto
  then have fr: "files w1 = files w" "dirs w1 = dirs w" "locked w1 = locked w"
                 "spawned w1 = spawned w" "tick w1 = tick w"
    by (auto split: if_splits dest: json_load_frame)
  let ?new = "reflist_name_at e ext (tick w)"
  have c: "can_open_w w1 (join d ?new) = can_open_w w (join d ?new)"
    using fr by (simp add: can_open_w_def isdir_def)
  from assms obtain m0 where j: "j = JDict m0"
    by (cases j) (simp_all add: update_unfold l)
  let ?m = "AList.update (path_name file) ip m0"
  let ?w4 = "info (write_file (w1\<lparr>tick := Suc (tick w1)\<rparr>) (join d ?new) (json_dumps e ?m))
               ''reference for new indexed file updated''"
  from assms have op: "can_open_w w (join d ?new)"
    and w': "w' = (if isfile ?w4 (joinpath d old) then remove ?w4 (joinpath d old) else ?w4)"
    by (simp_all add: update_unfold l j fr c Let_def split: if_splits)
  have i: "isfile ?w4 (joinpath d old)
             = isfile (w\<lparr>files := AList.update (join d ?new) (json_dumps e ?m) (files w)\<rparr>) (joinpath d old)"
    by (simp add: isfile_def info_def write_file_def fr)
  have "dirs w' = dirs w \<and> tick w' = Suc (tick w) \<and> spawned w' = spawned w \<and> locked w' = locked w
        \<and> files w' =
             (let fs = AList.update (join d ?new) (json_dumps e ?m) (files w)
              in if isfile (w\<lparr>files := fs\<rparr>) (joinpath d old)
                 then AList.delete (joinpath d old) fs else fs)"
    unfolding w' i Let_def by (simp add: info_def write_file_def remove_def fr)
  moreover have "map_of ?m (path_name file) = Some ip"
    by (simp add: update_conv')
  ultimately show ?thesis using op by blast
qed

lemma update_failure_frame:
  assumes "fst (update_index_path_reference e w file ip fref d old ext) \<noteq> Inr True"
  shows "files (snd (update_index_path_reference e w file ip fref d old ext)) = files w"
proof -
  obtain j w1 where l: "(if \<not> json_truthy fref then json_load e w d old else (fref, w)) = (j, w1)"
    by (cases "(if \<not> json_truthy fref then json_load e w d old else (fref, w))") auto
  then have fr: "files w1 = files w"
    by (auto split: if_splits dest: json_load_frame)
  show ?thesis
    using assms fr by (cases j) (simp_all add: update_unfold l err_def split: if_splits)
qed

lemma join_inject:
  "CHR ''/'' \<notin> set a \<Longrightarrow> CHR ''/'' \<notin> set b \<Longrightarrow> join d a = join d b \<Longrightarrow> a = b"
  using join_plain [of a d] join_plain [of b d] by simp

lemma manifests_elem:
  "f \<in> set (manifests w d ext) \<Longrightarrow>
     f \<noteq> [] \<and> CHR ''/'' \<notin> set f \<and> isfile w (join d f) \<and> startswith f (ext @ ''list'')"
  by (auto simp: manifests_def dest: entries_elem)

lemma update_step:
  assumes ext: "CHR ''/'' \<notin> set ext"
    and m: "manifests w d ext = [old]"
    and fresh: "\<not> path_exists w (join d (reflist_name_at e ext (tick w)))"
    and u: "update_index_path_reference e w file ip fref d old ext = (Inr True, w')"
  shows "manifests w' d ext = [reflist_name_at e ext (tick w)]"
    and "tick w' = Suc (tick w)"
    and "\<And>q. path_exists w' q \<Longrightarrow> path_exists w q \<or> q = join d (reflist_name_at e ext (tick w))"
proof -
  let ?new = "reflist_name_at e ext (tick w)"
  have old: "old \<noteq> []" "CHR ''/'' \<notin> set old" "isfile w (join d old)"
    using manifests_elem [of old w d ext] m by auto
  have new: "CHR ''/'' \<notin> set ?new" "?new \<noteq> []" "startswith ?new (ext @ ''list'')"
    using ext by (simp_all add: reflist_name_at_plain reflist_name_at_nonempty reflist_name_at_prefix)
  have ne: "?new \<noteq> old"
    using fresh old(3) by (auto simp: path_exists_def)
  have jne: "join d ?new \<noteq> join d old"
    using fresh old(3) by (auto simp: path_exists_def)
  from update_success [OF u] obtain mm where
    fr: "dirs w' = dirs w" "tick w' = Suc (tick w)"
    and fs: "files w' =
               (let fs = AList.update (join d ?new) (json_dumps e mm) (files w)
                in if isfile (w\<lparr>files := fs\<rparr>) (joinpath d old)
                   then AList.delete (joinpath d old) fs else fs)"
    by blast
  let ?fs = "AList.update (join d ?new) (json_dumps e mm) (files w)"
  let ?w1 = "w\<lparr>files := ?fs\<rparr>"
  have jp: "joinpath d old = join d old"
    using old(1) by (simp add: joinpath_def)
  have still: "isfile ?w1 (join d old)"
    using old(3) jne by (simp add: isfile_def update_conv')
  have files': "files w' = AList.delete (join d old) ?fs"
    using fs still by (simp add: jp Let_def)
  have m1: "manifests ?w1 d ext = [old, ?new]"
    using manifests_write [OF new(1) new(2) fresh, of "json_dumps e mm" ext] m new(3) by simp
  have "manifests w' d ext = manifests (?w1\<lparr>files := AList.delete (join d old) (files ?w1)\<rparr>) d ext"
    by (rule manifests_cong) (simp_all add: files' fr)
  also have "\<dots> = filter (\<lambda>f. f \<noteq> old) (manifests ?w1 d ext)"
    using old(2) by (rule manifests_remove)
  also have "\<dots> = [?new]"
    using ne by (simp add: m1)
  finally show "manifests w' d ext = [?new]" .
  show "tick w' = Suc (tick w)" by (rule fr)
  show "\<And>q. path_exists w' q \<Longrightarrow> path_exists w q \<or> q = join d ?new"
  proof -
    fix q assume "path_exists w' q"
    then consider "isfile w' q" | "isdir w' q" by (auto simp: path_exists_def)
    then show "path_exists w q \<or> q = join d ?new"
    proof cases
      case 1
      then have q: "q \<noteq> []" and "map_of (AList.delete (join d old) ?fs) q \<noteq> None"
        by (simp_all add: isfile_def files')
      then have "map_of ?fs q \<noteq> None"
        by (simp add: delete_conv' split: if_splits)
      then have "q = join d ?new \<or> map_of (files w) q \<noteq> None"
        by (simp add: update_conv' split: if_splits)
      then show ?thesis using q by (auto simp: path_exists_def isfile_def)
    next
      case 2
      then show ?thesis by (simp add: path_exists_def isdir_def fr)
    qed
  qed
qed


lemma update_run_one_manifest:
  "CHR ''/'' \<notin> set ext \<Longrightarrow>
   manifests w d ext = [m0] \<Longrightarrow>
   (\<forall>i. tick w \<le> i \<and> i < tick w + length reqs \<longrightarrow>
         \<not> path_exists w (join d (reflist_name_at e ext i))) \<Longrightarrow>
   distinct (map (reflist_name_at e ext) [tick w ..< tick w + length reqs]) \<Longrightarrow>
   update_run e w d ext reqs = Some w' \<Longrightarrow>
   manifests w' d ext
     = [if reqs = [] then m0 else reflist_name_at e ext (tick w + length reqs - 1)]"
proof (induction reqs arbitrary: w m0)
  case Nil
  then show ?case by simp
next
  case (Cons r rest)
  obtain src ip fref where r: "r = (src, ip, fref)" by (cases r) auto
  let ?t = "tick w"
  let ?nm = "reflist_name_at e ext"
  have dir: "isdir w d"
  proof (rule ccontr)
    assume "\<not> isdir w d"
    then have "get_reflist_name e w d ext = (Inl OSError, w)"
      by (simp add: get_reflist_name_def listdir_def)
    with Cons.prems(5) show False by (simp add: r)
  qed
  have g: "get_reflist_name e w d ext = (Inr m0, w)"
    using dir Cons.prems(2) by (rule get_reflist_name_found)
  obtain res w2 where u0: "update_index_path_reference e w src ip fref d m0 ext = (res, w2)"
    by (cases "update_index_path_reference e w src ip fref d m0 ext") auto
  with Cons.prems(5) g have u: "update_index_path_reference e w src ip fref d m0 ext = (Inr True, w2)"
    and rest: "update_run e w2 d ext rest = Some w'"
    by (auto simp: r split: sum.splits if_splits)
  have fresh: "\<not> path_exists w (join d (?nm ?t))"
    using Cons.prems(3) by simp
  note st = update_step [OF Cons.prems(1) Cons.prems(2) fresh u]
  have plain: "\<And>i. CHR ''/'' \<notin> set (?nm i)"
    using Cons.prems(1) by (rule reflist_name_at_plain)
  have upt: "[?t ..< ?t + length (r # rest)] = ?t # [Suc ?t ..< Suc ?t + length rest]"
    using upt_conv_Cons [of ?t "?t + length (r # rest)"] by (simp del: upt_Suc)
  have dist: "distinct (?nm ?t # map ?nm [Suc ?t ..< Suc ?t + length rest])"
    using Cons.prems(4) unfolding upt by (simp del: upt_Suc)
  have fresh2: "\<forall>i. tick w2 \<le> i \<and> i < tick w2 + length rest \<longrightarrow> \<not> path_exists w2 (join d (?nm i))"
  proof (intro allI impI notI)
    fix i assume i: "tick w2 \<le> i \<and> i < tick w2 + length rest" and p: "path_exists w2 (join d (?nm i))"
    from i have range: "Suc ?t \<le> i" "i < Suc ?t + length rest" by (simp_all add: st(2))
    from st(3) [OF p] have "path_exists w (join d (?nm i)) \<or> join d (?nm i) = join d (?nm ?t)" .
    then show False
    proof
      assume "path_exists w (join d (?nm i))"
      with Cons.prems(3) range show False by simp
    next
      assume "join d (?nm i) = join d (?nm ?t)"
      then have "?nm i = ?nm ?t" by (rule join_inject [OF plain plain])
      moreover have "?nm i \<in> set (map ?nm [Suc ?t ..< Suc ?t + length rest])"
        using range by (simp del: upt_Suc)
      ultimately show False using dist by simp
    qed
  qed
  have dist2: "distinct (map ?nm [tick w2 ..< tick w2 + length rest])"
    using dist by (simp add: st(2) del: upt_Suc)
  have "manifests w' d ext
          = [if rest = [] then ?nm ?t else ?nm (tick w2 + length rest - 1)]"
    using Cons.IH [OF Cons.prems(1) st(1) fresh2 dist2 rest] .
  then show ?case by (auto simp: st(2))
qed

subsection \<open>Replacing the manifest\<close>

lemma man0: "manifests world_indexed ''/c/indexing/v'' ''d2v'' = [''d2vlistold'']"
  by (simp add: manifests_def entries_def world_indexed_def world_cache_def world0_def join_def
      startswith_def child_name_def isfile_def)


lemma names0:
  "reflist_name_at env0 ''d2v'' 0 = ''d2vlisttmpx''"
  "reflist_name_at env0 ''d2v'' (Suc 0) = ''d2vlisttmpxx''"
  by (simp_all add: reflist_name_at_def env0_def tmpname0_def basename_def)

lemma run2:
  "update_run env0 world_indexed ''/c/indexing/v'' ''d2v'' requests2 \<noteq> None"
  by (simp add: get_reflist_name_def listdir_def entries_def world_indexed_def world_cache_def world0_def
      join_def startswith_def child_name_def isfile_def isdir_def update_unfold reflist_name_at_def
      env0_def tmpname0_def basename_def can_open_w_def dirname_def manifest1_def joinpath_def
      info_def write_file_def remove_def Let_def path_name_def plain_dumps_def quoted_def requests2_def)

lemma locked_update:
  "update_index_path_reference env0 world_locked ''/v/a.mpg'' ''/c/indexing/v/new.d2v''
       (JDict manifest1) ''/c/indexing/v'' ''d2vlistold'' ''d2v''
     = (Inr False,
        err (err (world_locked\<lparr>tick := Suc 0\<rparr>) ''str(e)'') ''json failed to store updated reference'')"
  by (simp add: update_unfold names0 can_open_w_def world_locked_def world_indexed_def world_cache_def
      world0_def join_def startswith_def manifest1_def)

lemma single_update:
  "fst (update_index_path_reference env0 world_indexed ''/v/a.mpg'' ''/c/indexing/v/new.d2v''
       (JDict manifest1) ''/c/indexing/v'' ''d2vlistold'' ''d2v'') = Inr True"
  by (simp add: update_unfold names0 can_open_w_def world_indexed_def world_cache_def
      world0_def join_def startswith_def manifest1_def isdir_def dirname_def)




subsection \<open>Creating the manifest\<close>

lemma cache_empty: "manifests world_cache ''/c/indexing/v'' ''d2v'' = []"
  by (simp add: manifests_def entries_def world_cache_def world0_def join_def startswith_def
      child_name_def)

lemma cache_locked_empty: "manifests world_cache_locked ''/c/indexing/v'' ''d2v'' = []"
  by (simp add: manifests_def entries_def world_cache_locked_def world_cache_def world0_def join_def
      startswith_def child_name_def)




section \<open>The resolver\<close>

subsection \<open>Executable resolution changes the log only\<close>

lemma get_exec_path_stages:
  "get_exec_path e w a b c =
     (case (if a = []
             then (let p = (case which e b of None \<Rightarrow> [] | Some p \<Rightarrow> p)
                   in if p \<noteq> [] \<and> isfile w p
                      then (Inr (a, p),
                            if \<not> access_x e p
                            then info w (''executable '' @ b @ '' might not have administrative rights to run'')
                            else w)
                      else if c \<noteq> [] \<and> isdir w c
                      then (Inr (c, p),
                            info w (''No directory passed for '' @ b
                                    @ '', executable not found in PATH, but fallback_tool_dir passed''))
                      else (Inl (ExecutableNotInPATHError b), w))
             else (Inr (a, []), w)) of
           (Inl x, w1) \<Rightarrow> (Inl x, w1)
         | (Inr (ed, ep), w1) \<Rightarrow>
             if \<not> isdir w1 ed then (Inl (ValueError Exec_dir_is_not_a_directory), w1)
             else
               (let ep1 = (if ep = [] then join ed b else ep)
                in if \<not> isfile w1 ep1
                   then (let ep2 = ep1 @ ''.exe''
                         in if \<not> isfile w1 ep2
                            then (Inl (ValueError Executable_is_not_in_exec_dir), w1)
                            else (Inr ep2, w1))
                   else (Inr ep1, w1)))"
  unfolding get_exec_path_def by (simp only: Let_def)

lemma get_exec_path_frame:
  "files (snd (get_exec_path e w a b c)) = files w
   \<and> dirs (snd (get_exec_path e w a b c)) = dirs w
   \<and> locked (snd (get_exec_path e w a b c)) = locked w
   \<and> spawned (snd (get_exec_path e w a b c)) = spawned w
   \<and> tick (snd (get_exec_path e w a b c)) = tick w"
proof -
  define s where "s =
            (if a = []
             then (let p = (case which e b of None \<Rightarrow> [] | Some p \<Rightarrow> p)
                   in if p \<noteq> [] \<and> isfile w p
                      then (Inr (a, p),
                            if \<not> access_x e p
                            then info w (''executable '' @ b @ '' might not have administrative rights to run'')
                            else w)
                      else if c \<noteq> [] \<and> isdir w c
                      then (Inr (c, p),
                            info w (''No directory passed for '' @ b
                                    @ '', executable not found in PATH, but fallback_tool_dir passed''))
                      else (Inl (ExecutableNotInPATHError b), w))
             else (Inr (a, []), w))"
  have "snd (get_exec_path e w a b c) = snd s"
    unfolding get_exec_path_stages s_def [symmetric]
    by (simp add: Let_def split: prod.splits sum.splits)
  moreover have "files (snd s) = files w \<and> dirs (snd s) = dirs w \<and> locked (snd s) = locked w
                 \<and> spawned (snd s) = spawned w \<and> tick (snd s) = tick w"
    unfolding s_def by (simp add: Let_def info_def)
  ultimately show ?thesis by simp
qed

lemma get_exec_path_cong:
  assumes "files w' = files w" "dirs w' = dirs w"
  shows "fst (get_exec_path e w' a b c) = fst (get_exec_path e w a b c)"
proof -
  define s where "s = (\<lambda>w.
            (if a = []
             then (let p = (case which e b of None \<Rightarrow> [] | Some p \<Rightarrow> p)
                   in if p \<noteq> [] \<and> isfile w p
                      then (Inr (a, p),
                            if \<not> access_x e p
                            then info w (''executable '' @ b @ '' might not have administrative rights to run'')
                            else w)
                      else if c \<noteq> [] \<and> isdir w c
                      then (Inr (c, p),
                            info w (''No directory passed for '' @ b
                                    @ '', executable not found in PATH, but fallback_tool_dir passed''))
                      else (Inl (ExecutableNotInPATHError b), w))
             else (Inr (a, []), w)))"
  have f: "\<And>p. isfile w' p = isfile w p" and d: "\<And>p. isdir w' p = isdir w p"
    using assms by (simp_all add: isfile_def isdir_def)
  have s1: "fst (s w') = fst (s w)"
    unfolding s_def by (simp add: Let_def f d)
  have s2: "files (snd (s w')) = files w \<and> dirs (snd (s w')) = dirs w"
           "files (snd (s w)) = files w \<and> dirs (snd (s w)) = dirs w"
    unfolding s_def using assms by (simp_all add: Let_def info_def)
  have f2: "\<And>p. isfile (snd (s w')) p = isfile (snd (s w)) p"
    and d2: "\<And>p. isdir (snd (s w')) p = isdir (snd (s w)) p"
    using s2 by (simp_all add: isfile_def isdir_def)
  have "get_exec_path e w' a b c = (case s w' of
           (Inl x, w1) \<Rightarrow> (Inl x, w1)
         | (Inr (ed, ep), w1) \<Rightarrow>
             if \<not> isdir w1 ed then (Inl (ValueError Exec_dir_is_not_a_directory), w1)
             else
               (let ep1 = (if ep = [] then join ed b else ep)
                in if \<not> isfile w1 ep1
                   then (let ep2 = ep1 @ ''.exe''
                         in if \<not> isfile w1 ep2
                            then (Inl (ValueError Executable_is_not_in_exec_dir), w1)
                            else (Inr ep2, w1))
                   else (Inr ep1, w1)))"
    unfolding get_exec_path_stages s_def by (rule refl)
  moreover have "get_exec_path e w a b c = (case s w of
           (Inl x, w1) \<Rightarrow> (Inl x, w1)
         | (Inr (ed, ep), w1) \<Rightarrow>
             if \<not> isdir w1 ed then (Inl (ValueError Exec_dir_is_not_a_directory), w1)
             else
               (let ep1 = (if ep = [] then join ed b else ep)
                in if \<not> isfile w1 ep1
                   then (let ep2 = ep1 @ ''.exe''
                         in if \<not> isfile w1 ep2
                            then (Inl (ValueError Executable_is_not_in_exec_dir), w1)
                            else (Inr ep2, w1))
                   else (Inr ep1, w1)))"
    unfolding get_exec_path_stages s_def by (rule refl)
  ultimately show ?thesis
    using s1 f2 d2
    by (cases "s w'"; cases "s w") (auto simp: Let_def split: sum.splits prod.splits)
qed

subsection \<open>Directories\<close>

lemma ancestors_shorter: "a \<in> set (ancestors d) \<Longrightarrow> length a < length d"
  by (auto simp: ancestors_def)

lemma makedirs_exists: "isdir w d \<Longrightarrow> makedirs w d = (Inl FileExistsError, w)"
  by (auto simp: makedirs_def path_exists_def isdir_def)

lemma makedirs_creates:
  "d \<noteq> [] \<Longrightarrow> \<not> path_exists w d \<Longrightarrow> \<forall>a\<in>set (ancestors d). \<not> isfile w a \<Longrightarrow>
   makedirs w d = (Inr (), w\<lparr>dirs := dirs w @ filter (\<lambda>a. \<not> isdir w a) (ancestors d) @ [d]\<rparr>)"
  by (simp add: makedirs_def)

lemma join_nil_length: "length d \<le> length (join d [])"
  by (simp add: join_nil)

lemma entries_more_dirs:
  assumes "\<forall>x\<in>set xs. length x \<le> length d"
  shows "entries (w\<lparr>dirs := dirs w @ xs\<rparr>) d = entries w d"
proof -
  have "\<And>x. x \<in> set xs \<Longrightarrow> child_name (join d []) x = []"
    using assms join_nil_length [of d] by (intro child_name_short) (meson le_trans)
  then have "concat (map (child_name (join d [])) xs) = []"
    by (induction xs) auto
  then show ?thesis
    by (simp add: entries_def)
qed

lemma manifests_more_dirs:
  assumes "\<forall>x\<in>set xs. length x \<le> length d"
  shows "manifests (w\<lparr>dirs := dirs w @ xs\<rparr>) d ext = manifests w d ext"
  using entries_more_dirs [OF assms, of w] by (simp add: manifests_def isfile_def)

lemma dirname_join:
  assumes "d \<noteq> []" "last d \<noteq> CHR ''/''" "CHR ''/'' \<notin> set n"
  shows "dirname (join d n) = d"
proof -
  have j: "join d n = d @ ''/'' @ n"
    using assms by (simp add: join_plain join_nil)
  have r: "rev (d @ ''/'' @ n) = rev n @ CHR ''/'' # rev d"
    by simp
  have dw: "dropWhile (\<lambda>c. c \<noteq> CHR ''/'') (rev n @ CHR ''/'' # rev d) = CHR ''/'' # rev d"
    using assms(3) by (auto simp: dropWhile_append3)
  have hd: "hd (rev d) \<noteq> CHR ''/''"
    using assms(1,2) by (simp add: hd_rev)
  have dw2: "dropWhile (\<lambda>c. c = CHR ''/'') (rev d) = rev d"
    using assms(1) hd by (cases "rev d") auto
  have ex: "\<exists>c\<in>set d. c \<noteq> CHR ''/''"
    using assms(1,2) by (meson last_in_set)
  show ?thesis
    unfolding dirname_def j r dw using ex by (simp add: Let_def dw2)
qed

subsection \<open>Looking the source up in the manifest\<close>

lemma open_r_cong: "files w' = files w \<Longrightarrow> open_r w' p = open_r w p"
  by (simp add: open_r_def isfile_def)

lemma path_exists_cong:
  "files w' = files w \<Longrightarrow> dirs w' = dirs w \<Longrightarrow> path_exists w' p = path_exists w p"
  by (simp add: path_exists_def isfile_def isdir_def)

lemma info_frame [simp]:
  "files (info w m) = files w" "dirs (info w m) = dirs w" "locked (info w m) = locked w"
  "spawned (info w m) = spawned w" "tick (info w m) = tick w"
  by (simp_all add: info_def)

lemma open_r_info [simp]: "open_r (info w m) p = open_r w p"
  by (simp add: open_r_def isfile_def)

lemma path_exists_info [simp]: "path_exists (info w m) p = path_exists w p"
  by (simp add: path_exists_def isfile_def isdir_def)

lemma json_load_ok:
  "open_r w (join d n) = Some text \<Longrightarrow> json_loads e text = Some j \<Longrightarrow> json_load e w d n = (j, w)"
  by (simp add: json_load_def)

lemma get_index_path_using_reflist_hit:
  assumes g: "get_reflist_name e w d ext = (Inr name, w)"
    and v: "truthy v"
    and o: "open_r w (join d name) = Some text"
    and l: "json_loads e text = Some (JDict m)"
    and k: "map_of m (basename source) = Some p"
    and p: "path_exists w p"
  shows "get_index_path_using_reflist e w source ext d v
           = (Inr (False, p, name, JDict m),
              info (info w (''re_use_indexing is enabled, looking for '' @ ext @ '' file in temp''))
                (ext @ ''_file='' @ p))"
proof -
  let ?w1 = "info w (''re_use_indexing is enabled, looking for '' @ ext @ '' file in temp'')"
  have o1: "open_r ?w1 (join d name) = Some text"
    using o by simp
  have jl: "json_load e ?w1 d name = (JDict m, ?w1)"
    using o1 l by (rule json_load_ok)
  have p1: "path_exists ?w1 p"
    using p by simp
  have ne: "p \<noteq> []" "m \<noteq> []"
    using p k by (auto simp: path_exists_def isfile_def isdir_def)
  show ?thesis
    using v k p1 ne jl by (simp add: get_index_path_using_reflist_def g)
qed

lemma get_index_path_using_reflist_stale:
  assumes g: "get_reflist_name e w d ext = (Inr name, w)"
    and v: "truthy v"
    and o: "open_r w (join d name) = Some text"
    and l: "json_loads e text = Some (JDict m)"
    and k: "map_of m (basename source) = Some p"
    and p: "\<not> path_exists w p"
  shows "get_index_path_using_reflist e w source ext d v
           = (Inr (True, join d (basename (tmpname e (tick w)) @ ''.'' @ ext), name,
                   JDict (AList.delete (basename source) m)),
              (info (info w (''re_use_indexing is enabled, looking for '' @ ext @ '' file in temp''))
                 (''index file found in reference, but actual '' @ ext
                  @ '' file does not exist, will be created''))\<lparr>tick := Suc (tick w)\<rparr>)"
proof -
  let ?w1 = "info w (''re_use_indexing is enabled, looking for '' @ ext @ '' file in temp'')"
  have o1: "open_r ?w1 (join d name) = Some text"
    using o by simp
  have jl: "json_load e ?w1 d name = (JDict m, ?w1)"
    using o1 l by (rule json_load_ok)
  have p1: "\<not> path_exists ?w1 p"
    using p by simp
  have ne: "m \<noteq> []"
    using k by auto
  show ?thesis
    using v k p1 ne jl by (simp add: get_index_path_using_reflist_def g random_name_def)
qed

lemma prep_namespaced_existing:
  assumes s: "source \<noteq> []" "isfile w source"
    and v: "in_True_False v"
    and x: "fst (get_exec_path e w exec_dir exec_name fb) = Inr ep"
    and i: "idir \<noteq> []" "isdir w idir"
    and dd: "isdir w (join (join idir ''indexing'') (basename (dirname source)))"
  shows "Index_managment_prep e w ext exec_name source v exec_dir idir fb
           = (case get_index_path_using_reflist e (snd (get_exec_path e w exec_dir exec_name fb)) source ext
                     (join (join idir ''indexing'') (basename (dirname source))) v of
                (Inl er, w4) \<Rightarrow> (Inl er, w4)
              | (Inr (isI, ipath, rname, fref), w4) \<Rightarrow>
                  (Inr \<lparr>isIndexing = isI, index_path = ipath, reflist_name = rname,
                        file_index_ref = fref, exec_path = ep,
                        using_reflist = True,
                        indexing_dir = join (join idir ''indexing'') (basename (dirname source))\<rparr>, w4))"
proof -
  let ?d = "join (join idir ''indexing'') (basename (dirname source))"
  obtain w1 where g: "get_exec_path e w exec_dir exec_name fb = (Inr ep, w1)"
    using x by (cases "get_exec_path e w exec_dir exec_name fb") auto
  have fr: "dirs w1 = dirs w"
    using get_exec_path_frame [of e w exec_dir exec_name fb] by (simp add: g)
  have d1: "isdir w1 idir" "isdir w1 ?d"
    using i(2) dd by (simp_all add: isdir_def fr)
  have mk: "makedirs w1 ?d = (Inl FileExistsError, w1)"
    using d1(2) by (rule makedirs_exists)
  show ?thesis
    unfolding Index_managment_prep_def g
    using s v i(1) d1(1) mk
    by (simp split: prod.splits sum.splits)
qed

lemma isfile_info [simp]: "isfile (info w m) p = isfile w p"
  by (simp add: isfile_def)

lemma isdir_info [simp]: "isdir (info w m) p = isdir w p"
  by (simp add: isdir_def)

lemma manifests_info [simp]: "manifests (info w m) d ext = manifests w d ext"
  by (simp add: manifests_def entries_def)

lemma get_exec_path_info: "fst (get_exec_path e (info w m) a b c) = fst (get_exec_path e w a b c)"
  by (rule get_exec_path_cong) simp_all

lemma correct_byte_for_range_frame:
  "spawned (snd (correct_byte_for_range w p r)) = spawned w"
  "dirs (snd (correct_byte_for_range w p r)) = dirs w"
  "q \<noteq> p \<Longrightarrow> map_of (files (snd (correct_byte_for_range w p r))) q = map_of (files w) q"
  by (simp_all add: correct_byte_for_range_def Let_def info_def err_def write_file_def update_conv'
      split: option.splits)

lemma correct_byte_for_range_ok:
  "open_rw w p \<noteq> None \<Longrightarrow> fst (correct_byte_for_range w p r) = Inr ()"
  by (auto simp: correct_byte_for_range_def Let_def split: option.splits)

lemma prep_hit:
  assumes s: "source \<noteq> []" "isfile w source"
    and v: "in_True_False v" "truthy v"
    and x: "fst (get_exec_path e w exec_dir exec_name fb) = Inr ep"
    and i: "idir \<noteq> []" "isdir w idir"
    and dd: "isdir w (cache_subdir idir source)"
    and mf: "manifests w (cache_subdir idir source) ext = name # rest"
    and o: "open_r w (join (cache_subdir idir source) name) = Some text"
    and l: "json_loads e text = Some (JDict m)"
    and k: "map_of m (basename source) = Some p"
    and p: "path_exists w p"
  shows "\<exists>w'. Index_managment_prep e w ext exec_name source v exec_dir idir fb
                 = (Inr \<lparr>isIndexing = False, index_path = p, reflist_name = name,
                         file_index_ref = JDict m, exec_path = ep,
                         using_reflist = True, indexing_dir = cache_subdir idir source\<rparr>, w')
              \<and> files w' = files w \<and> dirs w' = dirs w \<and> spawned w' = spawned w
              \<and> locked w' = locked w \<and> tick w' = tick w"
proof -
  let ?d = "cache_subdir idir source"
  let ?w1 = "snd (get_exec_path e w exec_dir exec_name fb)"
  have fr: "files ?w1 = files w" "dirs ?w1 = dirs w" "spawned ?w1 = spawned w"
           "locked ?w1 = locked w" "tick ?w1 = tick w"
    using get_exec_path_frame [of e w exec_dir exec_name fb] by simp_all
  have d1: "isdir ?w1 ?d"
    using dd by (simp add: isdir_def fr)
  have m1: "manifests ?w1 ?d ext = name # rest"
    using mf manifests_cong [of ?w1 w ?d ext] fr by simp
  have g: "get_reflist_name e ?w1 ?d ext = (Inr name, ?w1)"
    using d1 m1 by (rule get_reflist_name_found)
  have o1: "open_r ?w1 (join ?d name) = Some text"
    using o by (auto simp: open_r_def isfile_def fr split: if_splits)
  have p1: "path_exists ?w1 p"
    using p by (simp add: path_exists_def isfile_def isdir_def fr)
  note hit = get_index_path_using_reflist_hit [OF g v(2) o1 l k p1]
  have "Index_managment_prep e w ext exec_name source v exec_dir idir fb
          = (Inr \<lparr>isIndexing = False, index_path = p, reflist_name = name,
                         file_index_ref = JDict m, exec_path = ep,
                         using_reflist = True, indexing_dir = ?d\<rparr>,
             info (info ?w1 (''re_use_indexing is enabled, looking for '' @ ext @ '' file in temp''))
                (ext @ ''_file='' @ p))"
    using prep_namespaced_existing [OF s v(1) x i, of ext] dd hit
    by (simp add: cache_subdir_def)
  then show ?thesis
    using fr by simp
qed

lemma cache0: "cache_subdir ''/c'' ''/v/a.mpg'' = ''/c/indexing/v''"
  by (simp add: cache_subdir_def join_def startswith_def basename_def dirname_def)

lemma tools0: "fst (get_exec_path env0 world_indexed ''/tools'' ''d2vwitch'' []) = Inr ''/tools/d2vwitch''"
  by (simp add: get_exec_path_def world_indexed_def world_cache_def world0_def isdir_def isfile_def
      join_def startswith_def Let_def)



end
